theory Spec2Isabelle
  imports Main "HOL-Library.Word" "HOL-Library.Log_Nat" "HOL-Library.Char_ord"
    "HOL-Library.List_Lexorder"
begin

section \<open>Python values\<close>

subsection \<open>Floats\<close>

text \<open>
  A Python \<open>float\<close> is an IEEE 754 binary64 value. A finite one is kept as the exact
  rational it denotes; the two infinities and NaN are separate constructors. The sign of
  a zero is not kept: \<open>0.0\<close> and \<open>-0.0\<close> compare equal and are both falsy, which is all
  this program asks of them.
\<close>

datatype pyfloat = Fin rat | PosInf | NegInf | NaN

datatype py_error = ZeroDivisionError | OverflowError

definition pow2 :: "int \<Rightarrow> rat" where
  "pow2 e = (if 0 \<le> e then 2 ^ nat e else 1 / 2 ^ nat (- e))"

text \<open>Rounding a rational to the nearest integer, a tie going to the even neighbour.\<close>

definition round_half_even :: "rat \<Rightarrow> int" where
  "round_half_even q =
     (let f = \<lfloor>q\<rfloor>; d = q - of_int f
      in if d < 1 / 2 then f else if 1 / 2 < d then f + 1
         else if even f then f else f + 1)"

text \<open>\<open>ilog2 q\<close> is the integer \<open>k\<close> with \<open>2^k \<le> q < 2^(k+1)\<close>, for positive \<open>q\<close>.\<close>

definition ilog2 :: "rat \<Rightarrow> int" where
  "ilog2 q = (case quotient_of q of (a, b) \<Rightarrow>
      (let k = bitlen a - bitlen b in if pow2 k \<le> q then k else k - 1))"

text \<open>
  The exponent of the last place of a binary64 value near \<open>q\<close>: 53 significant bits,
  and never below \<open>2^-1074\<close>, the spacing of the subnormal numbers.
\<close>

definition ulp_exp :: "rat \<Rightarrow> int" where
  "ulp_exp q = max (ilog2 \<bar>q\<bar> - 52) (- 1074)"

text \<open>Round-to-nearest, ties-to-even, with an unbounded exponent range above.\<close>

definition round_double :: "rat \<Rightarrow> rat" where
  "round_double q =
     (if q = 0 then 0
      else let e = ulp_exp q in of_int (round_half_even (q / pow2 e)) * pow2 e)"

text \<open>The float that a decimal literal such as \<open>24.9\<close> denotes.\<close>

definition py_lit :: "rat \<Rightarrow> pyfloat" where
  "py_lit q = Fin (round_double q)"

text \<open>
  The result of an arithmetic operation whose exact value is \<open>q\<close>: the rounded value,
  or an infinity when that has left the finite range, which ends below \<open>2^1024\<close>.
\<close>

definition to_float :: "rat \<Rightarrow> pyfloat" where
  "to_float q =
     (let r = round_double q
      in if r \<noteq> 0 \<and> 1024 \<le> ilog2 \<bar>r\<bar> then (if 0 < r then PosInf else NegInf)
         else Fin r)"

text \<open>Comparisons: every comparison with NaN is false.\<close>

fun float_lt :: "pyfloat \<Rightarrow> pyfloat \<Rightarrow> bool" where
  "float_lt NaN _ = False"
| "float_lt _ NaN = False"
| "float_lt (Fin x) (Fin y) = (x < y)"
| "float_lt NegInf NegInf = False"
| "float_lt NegInf _ = True"
| "float_lt _ NegInf = False"
| "float_lt PosInf _ = False"
| "float_lt (Fin x) PosInf = True"

fun float_le :: "pyfloat \<Rightarrow> pyfloat \<Rightarrow> bool" where
  "float_le NaN _ = False"
| "float_le _ NaN = False"
| "float_le (Fin x) (Fin y) = (x \<le> y)"
| "float_le NegInf _ = True"
| "float_le _ PosInf = True"
| "float_le PosInf _ = False"
| "float_le (Fin x) NegInf = False"

text \<open>Truth value of a float: only zero is falsy (NaN and the infinities are truthy).\<close>

fun float_truthy :: "pyfloat \<Rightarrow> bool" where
  "float_truthy (Fin x) = (x \<noteq> 0)"
| "float_truthy _ = True"

text \<open>
  \<open>a / b\<close> on floats: Python raises \<open>ZeroDivisionError\<close> for a zero divisor whatever
  the dividend; otherwise the IEEE quotient, which overflows to an infinity silently.
\<close>

fun float_div :: "pyfloat \<Rightarrow> pyfloat \<Rightarrow> py_error + pyfloat" where
  "float_div a (Fin y) =
     (if y = 0 then Inl ZeroDivisionError
      else case a of
          Fin x \<Rightarrow> Inr (to_float (x / y))
        | PosInf \<Rightarrow> Inr (if y < 0 then NegInf else PosInf)
        | NegInf \<Rightarrow> Inr (if y < 0 then PosInf else NegInf)
        | NaN \<Rightarrow> Inr NaN)"
| "float_div a NaN = Inr NaN"
| "float_div (Fin x) _ = Inr (Fin 0)"
| "float_div _ _ = Inr NaN"

text \<open>
  Rounding toward one side: the largest float that is not above \<open>q\<close>, or with \<open>up\<close> the
  smallest that is not below it. The two agree exactly when \<open>q\<close> is itself a float.
\<close>

definition round_toward :: "bool \<Rightarrow> rat \<Rightarrow> rat" where
  "round_toward up q =
     (if q = 0 then 0
      else let e = ulp_exp q; t = q / pow2 e
           in of_int (if up then \<lceil>t\<rceil> else \<lfloor>t\<rfloor>) * pow2 e)"

text \<open>
  \<open>x ** 2\<close>: CPython hands a finite base to the C library's \<open>pow\<close>. That function is
  accurate to within one unit in the last place but need not round to nearest: when
  the exact square is a float it returns it, and otherwise it returns one of the two
  floats around the exact square. Which of the two is the library's choice; the
  argument \<open>pow_up\<close> says for each base whether it is the upper one. A result beyond the
  finite range becomes \<open>OverflowError\<close>; an infinite base gives infinity, NaN gives NaN.
\<close>

fun float_pow2 :: "(rat \<Rightarrow> bool) \<Rightarrow> pyfloat \<Rightarrow> py_error + pyfloat" where
  "float_pow2 pow_up (Fin x) =
     (let lo = round_toward False (x * x); hi = round_toward True (x * x);
          r = (if lo = hi then lo else if pow_up x then hi else lo)
      in if r \<noteq> 0 \<and> 1024 \<le> ilog2 \<bar>r\<bar> then Inl OverflowError else Inr (Fin r))"
| "float_pow2 pow_up NaN = Inr NaN"
| "float_pow2 pow_up _ = Inr PosInf"

text \<open>
  \<open>round(x, 1)\<close>: the exact value of \<open>x\<close> is rounded to one decimal (ties to even) and
  the nearest float to that decimal is returned; an infinity or NaN is returned as it is.
\<close>

fun py_round1 :: "pyfloat \<Rightarrow> pyfloat" where
  "py_round1 (Fin x) = Fin (round_double (of_int (round_half_even (x * 10)) / 10))"
| "py_round1 v = v"

subsection \<open>Strings and integers\<close>

text \<open>
  A Python \<open>str\<close> is kept as the list of the bytes of its UTF-8 encoding. An \<open>int\<close> is
  an \<open>int\<close>; a value that may be \<open>None\<close> is an \<open>option\<close>. A string is truthy when
  it is not empty, an integer when it is not zero, and \<open>None\<close> is falsy.
\<close>

definition str_truthy :: "string \<Rightarrow> bool" where
  "str_truthy s \<longleftrightarrow> s \<noteq> []"

definition int_truthy :: "int \<Rightarrow> bool" where
  "int_truthy n \<longleftrightarrow> n \<noteq> 0"

text \<open>\<open>str(n)\<close>, which is also how an f-string renders an integer.\<close>

fun digits :: "nat \<Rightarrow> string" where
  "digits n =
     (if n < 10 then [''0123456789'' ! n]
      else digits (n div 10) @ [''0123456789'' ! (n mod 10)])"

definition str_int :: "int \<Rightarrow> string" where
  "str_int i = (if i < 0 then CHR ''-'' # digits (nat (- i)) else digits (nat i))"

text \<open>\<open>sep.join(parts)\<close>\<close>

fun join :: "string \<Rightarrow> string list \<Rightarrow> string" where
  "join sep [] = []"
| "join sep [x] = x"
| "join sep (x # y # ys) = x @ sep @ join sep (y # ys)"

text \<open>\<open>s.startswith(p)\<close>\<close>

definition startswith :: "string \<Rightarrow> string \<Rightarrow> bool" where
  "startswith s p \<longleftrightarrow> take (length p) s = p"

text \<open>
  The characters that \<open>str.strip()\<close> removes are those for which \<open>str.isspace()\<close>
  holds. In UTF-8 they take one, two or three bytes: the ASCII ones (tab to carriage
  return, the four separators \<open>0x1C\<close> to \<open>0x1F\<close>, space), then \<open>U+0085\<close> and \<open>U+00A0\<close>,
  then \<open>U+1680\<close>, \<open>U+2000\<close> to \<open>U+200A\<close>, \<open>U+2028\<close>, \<open>U+2029\<close>, \<open>U+202F\<close>, \<open>U+205F\<close>
  and \<open>U+3000\<close>.
\<close>

definition space1 :: "char \<Rightarrow> bool" where
  "space1 a \<longleftrightarrow> (of_char a :: nat) \<in> {9, 10, 11, 12, 13, 28, 29, 30, 31, 32}"

definition space2 :: "char \<Rightarrow> char \<Rightarrow> bool" where
  "space2 a b \<longleftrightarrow> a = CHR 0xC2 \<and> (b = CHR 0x85 \<or> b = CHR 0xA0)"

definition space3 :: "char \<Rightarrow> char \<Rightarrow> char \<Rightarrow> bool" where
  "space3 a b c \<longleftrightarrow>
     (a = CHR 0xE1 \<and> b = CHR 0x9A \<and> c = CHR 0x80)
   \<or> (a = CHR 0xE2 \<and> b = CHR 0x80 \<and>
        ((0x80 \<le> (of_char c :: nat) \<and> (of_char c :: nat) \<le> 0x8A)
         \<or> c = CHR 0xA8 \<or> c = CHR 0xA9 \<or> c = CHR 0xAF))
   \<or> (a = CHR 0xE2 \<and> b = CHR 0x81 \<and> c = CHR 0x9F)
   \<or> (a = CHR 0xE3 \<and> b = CHR 0x80 \<and> c = CHR 0x80)"

text \<open>
  \<open>only_whitespace s\<close> holds when \<open>s.strip()\<close> is the empty string, that is when
  \<open>s.strip()\<close> is falsy.
\<close>

fun only_whitespace :: "string \<Rightarrow> bool" where
  "only_whitespace [] = True"
| "only_whitespace [a] = space1 a"
| "only_whitespace [a, b] = (if space1 a then space1 b else space2 a b)"
| "only_whitespace (a # b # c # cs) =
     (if space1 a then only_whitespace (b # c # cs)
      else if space2 a b then only_whitespace (c # cs)
      else space3 a b c \<and> only_whitespace cs)"

text \<open>What the program writes: a line on standard output, or an error box on the page.\<close>

datatype effect = Printed string | St_error string

section \<open>The BMI helper\<close>

text \<open>
  \<open>calculate_bmi(weight_kg, height_cm)\<close>. An argument is \<open>None\<close> or a number; a Python
  \<open>int\<close> of magnitude below \<open>2^53\<close> behaves in every operation used here as the float of
  the same value, so \<open>calculate_bmi(70, 175)\<close> is the call on \<open>Fin 70\<close> and \<open>Fin 175\<close>.
  The first argument of the model is the rounding choice of the C library's \<open>pow\<close>.
\<close>

text \<open>The guard of the first \<open>if\<close>, on two numbers.\<close>

definition invalid_input :: "pyfloat \<Rightarrow> pyfloat \<Rightarrow> bool" where
  "invalid_input weight_kg height_cm \<longleftrightarrow>
     \<not> float_truthy weight_kg \<or> \<not> float_truthy height_cm
     \<or> float_le height_cm (Fin 0) \<or> float_le weight_kg (Fin 0)"

text \<open>\<open>height_m = height_cm / 100; bmi = weight_kg / (height_m ** 2)\<close>\<close>

definition compute_bmi :: "(rat \<Rightarrow> bool) \<Rightarrow> pyfloat \<Rightarrow> pyfloat \<Rightarrow> py_error + pyfloat" where
  "compute_bmi pow_up weight_kg height_cm =
     (case float_div height_cm (Fin 100) of
        Inl e \<Rightarrow> Inl e
      | Inr height_m \<Rightarrow>
          (case float_pow2 pow_up height_m of
             Inl e \<Rightarrow> Inl e
           | Inr sq \<Rightarrow> float_div weight_kg sq))"

text \<open>The \<open>if\<close>/\<open>elif\<close>/\<open>else\<close> chain that names the category.\<close>

definition bmi_category :: "pyfloat \<Rightarrow> string" where
  "bmi_category bmi =
     (if float_lt bmi (py_lit (185 / 10)) then ''Underweight''
      else if float_le (py_lit (185 / 10)) bmi \<and> float_lt bmi (py_lit (249 / 10))
        then ''Normal weight''
      else if float_le (Fin 25) bmi \<and> float_lt bmi (py_lit (299 / 10))
        then ''Overweight''
      else ''Obesity'')"

fun calculate_bmi ::
  "(rat \<Rightarrow> bool) \<Rightarrow> pyfloat option \<Rightarrow> pyfloat option
     \<Rightarrow> py_error + (pyfloat option \<times> string)" where
  "calculate_bmi pow_up None height_cm = Inr (None, ''Enter valid height and weight'')"
| "calculate_bmi pow_up (Some w) None = Inr (None, ''Enter valid height and weight'')"
| "calculate_bmi pow_up (Some w) (Some h) =
     (if invalid_input w h then Inr (None, ''Enter valid height and weight'')
      else case compute_bmi pow_up w h of
             Inl e \<Rightarrow> Inl e
           | Inr bmi \<Rightarrow> Inr (Some (py_round1 bmi), bmi_category bmi))"

section \<open>The store\<close>

text \<open>
  The three tables that \<open>init_db\<close> creates, each a list of rows in rowid order, and the
  \<open>AUTOINCREMENT\<close> counter that SQLite keeps for each of them (the largest rowid the
  table has ever handed out). A timestamp is what \<open>CURRENT_TIMESTAMP\<close> stores, the
  text \<open>YYYY-MM-DD HH:MM:SS\<close>; it is kept as the number of seconds it denotes, whose
  order is the order of the texts.
\<close>

type_synonym timestamp = nat

text \<open>
  An integer that a statement takes as a parameter is a signed 64-bit value, the
  range of SQLite's \<open>INTEGER\<close>, read with \<open>sint\<close>: the driver binds no other. (Handed a
  Python \<open>int\<close> outside that range, \<open>execute\<close> raises \<open>OverflowError\<close> before the
  statement runs; such a value is not an id of this store.)
\<close>

type_synonym sqlite_int = "64 word"

record user_profile_row =
  up_id :: int
  profile_name :: string
  fitness_goal :: string
  experience_level :: string
  up_age :: "int option"
  up_sex :: "string option"
  height_cm :: "pyfloat option"
  weight_kg :: "pyfloat option"
  activity_level :: "string option"
  dietary_prefs :: "string option"
  equipment :: "string option"
  profile_notes :: "string option"

record chat_history_row =
  ch_id :: int
  ch_profile_id :: int
  ch_timestamp :: timestamp
  ch_role :: string
  ch_content :: string

record workout_log_row =
  wl_id :: int
  wl_profile_id :: int
  wl_timestamp :: timestamp
  log_type :: string
  wl_notes :: string
  wl_weight_kg :: "pyfloat option"

record database =
  user_profile :: "user_profile_row list"
  chat_history :: "chat_history_row list"
  workout_log :: "workout_log_row list"
  seq_user_profile :: int
  seq_chat_history :: int
  seq_workout_log :: int

subsection \<open>The engine\<close>

text \<open>
  A connection as \<open>sqlite3.connect(DB_FILE)\<close> returns it. SQLite enforces foreign-key
  constraints, and with them the \<open>ON DELETE CASCADE\<close> actions, only on a connection
  that has run \<open>PRAGMA foreign_keys = ON\<close>; a fresh connection has the setting off.
\<close>

record connection =
  foreign_keys :: bool

definition sqlite3_connect :: connection where
  "sqlite3_connect = \<lparr>foreign_keys = False\<rparr>"

text \<open>
  An exception out of the driver: a violated constraint, or anything else (an I/O
  error, a locked file), carried with its message.
\<close>

datatype sqlite_error = IntegrityError string | DatabaseError string

fun error_message :: "sqlite_error \<Rightarrow> string" where
  "error_message (IntegrityError m) = m"
| "error_message (DatabaseError m) = m"

text \<open>
  \<open>with sqlite3.connect(DB_FILE) as conn: body\<close>. The body runs in one transaction,
  committed when it ends and rolled back when it raises, so a failure carries no new
  store. The argument \<open>fault\<close> is the failure, if any, that comes from outside the data;
  it is given only to the functions of the program that catch it.
\<close>

definition with_connection ::
  "string option \<Rightarrow> (connection \<Rightarrow> database \<Rightarrow> sqlite_error + 'a \<times> database)
     \<Rightarrow> database \<Rightarrow> sqlite_error + 'a \<times> database" where
  "with_connection fault body db =
     (case fault of Some m \<Rightarrow> Inl (DatabaseError m) | None \<Rightarrow> body sqlite3_connect db)"

text \<open>The rowid of a new row of an \<open>AUTOINCREMENT\<close> table.\<close>

definition next_rowid :: "int \<Rightarrow> int list \<Rightarrow> int" where
  "next_rowid seq ids = fold max ids seq + 1"

text \<open>\<open>INSERT INTO user_profile (profile_name) VALUES (?)\<close>; the name is \<open>UNIQUE\<close>.\<close>

definition insert_user_profile ::
  "string \<Rightarrow> connection \<Rightarrow> database \<Rightarrow> sqlite_error + int \<times> database" where
  "insert_user_profile name conn db =
     (if name \<in> set (map profile_name (user_profile db))
      then Inl (IntegrityError ''UNIQUE constraint failed: user_profile.profile_name'')
      else let new_id = next_rowid (seq_user_profile db) (map up_id (user_profile db))
           in Inr (new_id,
                db\<lparr>user_profile := user_profile db @
                     [\<lparr>up_id = new_id, profile_name = name,
                       fitness_goal = ''General Fitness'', experience_level = ''Beginner'',
                       up_age = None, up_sex = None, height_cm = None, weight_kg = None,
                       activity_level = None, dietary_prefs = None, equipment = None,
                       profile_notes = None\<rparr>],
                   seq_user_profile := new_id\<rparr>))"

text \<open>\<open>UPDATE user_profile SET ... WHERE id = ?\<close>\<close>

definition update_user_profile ::
  "sqlite_int \<Rightarrow> string \<Rightarrow> string \<Rightarrow> int option \<Rightarrow> string option \<Rightarrow> pyfloat option
     \<Rightarrow> pyfloat option \<Rightarrow> string option \<Rightarrow> string option \<Rightarrow> string option
     \<Rightarrow> string option \<Rightarrow> connection \<Rightarrow> database \<Rightarrow> sqlite_error + unit \<times> database" where
  "update_user_profile profile_id goal experience age sex height weight activity diet
       equip notes conn db =
     Inr ((), db\<lparr>user_profile :=
       map (\<lambda>r. if up_id r = sint profile_id
                 then r\<lparr>fitness_goal := goal, experience_level := experience,
                        up_age := age, up_sex := sex, height_cm := height,
                        weight_kg := weight, activity_level := activity,
                        dietary_prefs := diet, equipment := equip, profile_notes := notes\<rparr>
                 else r)
           (user_profile db)\<rparr>)"

text \<open>
  \<open>DELETE FROM user_profile WHERE id = ?\<close>. The rows of the two child tables follow
  the deleted profile only on a connection that enforces foreign keys.
\<close>

definition delete_user_profile ::
  "sqlite_int \<Rightarrow> connection \<Rightarrow> database \<Rightarrow> sqlite_error + unit \<times> database" where
  "delete_user_profile profile_id conn db =
     (let db' = db\<lparr>user_profile := filter (\<lambda>r. up_id r \<noteq> sint profile_id) (user_profile db)\<rparr>
      in if foreign_keys conn \<and> sint profile_id \<in> set (map up_id (user_profile db))
         then Inr ((), db'\<lparr>chat_history :=
                            filter (\<lambda>r. ch_profile_id r \<noteq> sint profile_id) (chat_history db),
                          workout_log :=
                            filter (\<lambda>r. wl_profile_id r \<noteq> sint profile_id) (workout_log db)\<rparr>)
         else Inr ((), db'))"

text \<open>
  \<open>INSERT INTO chat_history (profile_id, role, content) VALUES (?, ?, ?)\<close>, the
  timestamp defaulting to the current time \<open>now\<close>.
\<close>

definition insert_chat_history ::
  "timestamp \<Rightarrow> sqlite_int \<Rightarrow> string \<Rightarrow> string \<Rightarrow> connection \<Rightarrow> database
     \<Rightarrow> sqlite_error + unit \<times> database" where
  "insert_chat_history now profile_id role content conn db =
     (if foreign_keys conn \<and> sint profile_id \<notin> set (map up_id (user_profile db))
      then Inl (IntegrityError ''FOREIGN KEY constraint failed'')
      else let new_id = next_rowid (seq_chat_history db) (map ch_id (chat_history db))
           in Inr ((),
                db\<lparr>chat_history := chat_history db @
                     [\<lparr>ch_id = new_id, ch_profile_id = sint profile_id, ch_timestamp = now,
                       ch_role = role, ch_content = content\<rparr>],
                   seq_chat_history := new_id\<rparr>))"

text \<open>\<open>DELETE FROM chat_history WHERE profile_id = ?\<close>\<close>

definition delete_chat_history ::
  "sqlite_int \<Rightarrow> connection \<Rightarrow> database \<Rightarrow> sqlite_error + unit \<times> database" where
  "delete_chat_history profile_id conn db =
     Inr ((), db\<lparr>chat_history :=
                   filter (\<lambda>r. ch_profile_id r \<noteq> sint profile_id) (chat_history db)\<rparr>)"

text \<open>\<open>INSERT INTO workout_log (profile_id, log_type, notes, weight_kg) VALUES (?, ?, ?, ?)\<close>\<close>

definition insert_workout_log ::
  "timestamp \<Rightarrow> sqlite_int \<Rightarrow> string \<Rightarrow> string \<Rightarrow> pyfloat option \<Rightarrow> connection \<Rightarrow> database
     \<Rightarrow> sqlite_error + unit \<times> database" where
  "insert_workout_log now profile_id ltype notes weight conn db =
     (if foreign_keys conn \<and> sint profile_id \<notin> set (map up_id (user_profile db))
      then Inl (IntegrityError ''FOREIGN KEY constraint failed'')
      else let new_id = next_rowid (seq_workout_log db) (map wl_id (workout_log db))
           in Inr ((),
                db\<lparr>workout_log := workout_log db @
                     [\<lparr>wl_id = new_id, wl_profile_id = sint profile_id, wl_timestamp = now,
                       log_type = ltype, wl_notes = notes, wl_weight_kg = weight\<rparr>],
                   seq_workout_log := new_id\<rparr>))"

text \<open>
  \<open>SELECT role, content FROM chat_history WHERE profile_id = ? ORDER BY timestamp ASC\<close>.
  Rows with the same timestamp come out in rowid order, as SQLite's sorter leaves them.
\<close>

definition ordered_chat_rows :: "sqlite_int \<Rightarrow> database \<Rightarrow> chat_history_row list" where
  "ordered_chat_rows profile_id db =
     sort_key ch_timestamp (filter (\<lambda>r. ch_profile_id r = sint profile_id) (chat_history db))"

definition select_chat_history :: "sqlite_int \<Rightarrow> database \<Rightarrow> (string \<times> string) list" where
  "select_chat_history profile_id db =
     map (\<lambda>r. (ch_role r, ch_content r)) (ordered_chat_rows profile_id db)"

section \<open>The database functions\<close>

text \<open>The empty store, before \<open>init_db\<close> has run for the first time.\<close>

definition empty_db :: database where
  "empty_db = \<lparr>user_profile = [], chat_history = [], workout_log = [],
               seq_user_profile = 0, seq_chat_history = 0, seq_workout_log = 0\<rparr>"

text \<open>
  \<open>init_db\<close>: the tables and indices are created when missing, which leaves an
  existing store as it is, and \<open>INSERT OR IGNORE\<close> adds the profile \<open>Default\<close> unless
  the name is taken. The ignored insert has still drawn a rowid, so it leaves the
  counter of the table advanced by one.
\<close>

definition init_db :: "database \<Rightarrow> database" where
  "init_db db =
     (case insert_user_profile ''Default'' sqlite3_connect db of
        Inl e \<Rightarrow>
          db\<lparr>seq_user_profile :=
               next_rowid (seq_user_profile db) (map up_id (user_profile db))\<rparr>
      | Inr (new_id, db') \<Rightarrow> db')"

definition get_all_profiles :: "database \<Rightarrow> (int \<times> string) list" where
  "get_all_profiles db =
     sort_key snd (map (\<lambda>r. (up_id r, profile_name r)) (user_profile db))"

type_synonym profile_details =
  "string \<times> string \<times> int option \<times> string option \<times> pyfloat option \<times> pyfloat option
     \<times> string option \<times> string option \<times> string option \<times> string option"

text \<open>
  \<open>get_profile_details\<close>: \<open>fetchone()\<close> gives the row with that id, a tuple of ten
  columns and so truthy, or \<open>None\<close> when there is no such row.
\<close>

definition get_profile_details :: "sqlite_int \<Rightarrow> database \<Rightarrow> profile_details" where
  "get_profile_details profile_id db =
     (case find (\<lambda>r. up_id r = sint profile_id) (user_profile db) of
        Some r \<Rightarrow>
          (fitness_goal r, experience_level r, up_age r, up_sex r, height_cm r, weight_kg r,
           activity_level r, dietary_prefs r, equipment r, profile_notes r)
      | None \<Rightarrow>
          (''General Fitness'', ''Beginner'', None, None, None, None, None, None, None, None))"

definition create_profile ::
  "string option \<Rightarrow> string \<Rightarrow> database \<Rightarrow> int option \<times> effect list \<times> database" where
  "create_profile fault name db =
     (case with_connection fault (insert_user_profile name) db of
        Inr (new_id, db') \<Rightarrow> (Some new_id, [], db')
      | Inl (IntegrityError m) \<Rightarrow>
          (None, [Printed (''Profile name '' @ [CHR 0x27] @ name @ [CHR 0x27]
                           @ '' already exists.'')], db)
      | Inl (DatabaseError m) \<Rightarrow>
          (None, [Printed (''Error creating profile: '' @ m)], db))"

definition update_profile ::
  "string option \<Rightarrow> sqlite_int \<Rightarrow> string \<Rightarrow> string \<Rightarrow> int option \<Rightarrow> string option
     \<Rightarrow> pyfloat option \<Rightarrow> pyfloat option \<Rightarrow> string option \<Rightarrow> string option
     \<Rightarrow> string option \<Rightarrow> string option \<Rightarrow> database \<Rightarrow> bool \<times> effect list \<times> database" where
  "update_profile fault profile_id goal experience age sex height weight activity diet
       equip notes db =
     (case with_connection fault
             (update_user_profile profile_id goal experience age sex height weight
                activity diet equip notes) db of
        Inr (u, db') \<Rightarrow> (True, [], db')
      | Inl e \<Rightarrow>
          (False, [Printed (''Error updating profile '' @ str_int (sint profile_id) @ '': ''
                            @ error_message e)], db))"

definition delete_profile ::
  "string option \<Rightarrow> sqlite_int \<Rightarrow> database \<Rightarrow> bool \<times> effect list \<times> database" where
  "delete_profile fault profile_id db =
     (let profiles = get_all_profiles db
      in if length profiles \<le> 1
         then (False, [St_error ''Cannot delete the last profile.''], db)
         else case with_connection fault (delete_user_profile profile_id) db of
                Inr (u, db') \<Rightarrow> (True, [], db')
              | Inl e \<Rightarrow>
                  (False, [Printed (''Error deleting profile '' @ str_int (sint profile_id)
                                    @ '': '' @ error_message e)], db))"

text \<open>A message of the transcript, the dictionary \<open>{"role": ..., "content": ...}\<close>.\<close>

record message =
  role :: string
  content :: string

definition load_chat_history ::
  "string option \<Rightarrow> sqlite_int \<Rightarrow> database \<Rightarrow> message list \<times> effect list" where
  "load_chat_history fault profile_id db =
     (case with_connection fault
             (\<lambda>conn d. Inr (select_chat_history profile_id d, d)) db of
        Inr (history, db') \<Rightarrow>
          (map (\<lambda>(r, c). \<lparr>role = r, content = c\<rparr>) history, [])
      | Inl e \<Rightarrow>
          ([], [Printed (''Error loading chat history for profile '' @ str_int (sint profile_id)
                         @ '': '' @ error_message e)]))"

definition save_chat_message ::
  "string option \<Rightarrow> timestamp \<Rightarrow> sqlite_int \<Rightarrow> string \<Rightarrow> string \<Rightarrow> database
     \<Rightarrow> bool \<times> effect list \<times> database" where
  "save_chat_message fault now profile_id r c db =
     (case with_connection fault (insert_chat_history now profile_id r c) db of
        Inr (u, db') \<Rightarrow> (True, [], db')
      | Inl e \<Rightarrow>
          (False, [Printed (''Error saving chat message for profile '' @ str_int (sint profile_id)
                            @ '': '' @ error_message e)], db))"

definition clear_profile_history ::
  "string option \<Rightarrow> sqlite_int \<Rightarrow> database \<Rightarrow> bool \<times> effect list \<times> database" where
  "clear_profile_history fault profile_id db =
     (case with_connection fault (delete_chat_history profile_id) db of
        Inr (u, db') \<Rightarrow> (True, [], db')
      | Inl e \<Rightarrow>
          (False, [Printed (''Error clearing history for profile '' @ str_int (sint profile_id)
                            @ '': '' @ error_message e)], db))"

definition log_entry ::
  "string option \<Rightarrow> timestamp \<Rightarrow> sqlite_int \<Rightarrow> string \<Rightarrow> string \<Rightarrow> pyfloat option \<Rightarrow> database
     \<Rightarrow> bool \<times> effect list \<times> database" where
  "log_entry fault now profile_id ltype notes weight db =
     (case with_connection fault (insert_workout_log now profile_id ltype notes weight) db of
        Inr (u, db') \<Rightarrow> (True, [], db')
      | Inl e \<Rightarrow>
          (False, [Printed (''Error logging entry for profile '' @ str_int (sint profile_id)
                            @ '': '' @ error_message e)], db))"

section \<open>The completion service\<close>

text \<open>
  A request as \<open>client.chat.completions.create\<close> receives it. With \<open>stream=False\<close>
  the call returns one completion, whose message content is read, or raises; with
  \<open>stream=True\<close> it returns an iterator of chunks, each with a content delta that may
  be \<open>None\<close>, and the call or the iteration may raise after some chunks. The two uses
  are the two fields of the client.
\<close>

record api_request =
  model :: string
  messages :: "message list"
  temperature :: pyfloat
  max_tokens :: nat
  top_p :: nat
  stream :: bool

text \<open>
  \<open>GroqError\<close> with its status code and message, or any other exception with the name
  of its type and its text.
\<close>

datatype api_error = GroqError int string | OtherException string string

record groq_client =
  complete :: "api_request \<Rightarrow> api_error + string"
  stream_chunks :: "api_request \<Rightarrow> string option list \<times> api_error option"

definition GROQ_MODEL :: string where
  "GROQ_MODEL = ''meta-llama/llama-4-maverick-17b-128e-instruct''"

section \<open>Schedule generation\<close>

text \<open>\<open>{v if v else dflt}\<close> inside an f-string.\<close>

definition if_else :: "('a \<Rightarrow> bool) \<Rightarrow> ('a \<Rightarrow> string) \<Rightarrow> string \<Rightarrow> 'a option \<Rightarrow> string" where
  "if_else truthy render dflt v =
     (case v of Some x \<Rightarrow> if truthy x then render x else dflt | None \<Rightarrow> dflt)"

definition schedule_prompt :: "profile_details \<Rightarrow> string" where
  "schedule_prompt details =
     (case details of
        (goal, experience, age, sex, height, weight, activity, diet, equip, notes) \<Rightarrow>
         ''Create a detailed 4-week fitness schedule tailored for a user ''
         @ ''with the following profile:\<newline>''
         @ ''        - Goal: '' @ goal @ ''\<newline>''
         @ ''        - Experience Level: '' @ experience @ ''\<newline>''
         @ ''        - Age: '' @ if_else int_truthy str_int ''Not specified'' age
         @ ''\<newline>''
         @ ''        - Sex: '' @ if_else str_truthy id ''Not specified'' sex
         @ ''\<newline>''
         @ ''        - Activity Level: '' @ if_else str_truthy id ''Not specified'' activity
         @ ''\<newline>''
         @ ''        - Available Equipment: ''
         @ if_else str_truthy id ''Basic bodyweight/home equipment'' equip
         @ ''\<newline>''
         @ ''        - General Notes: '' @ if_else str_truthy id ''None'' notes
         @ ''\<newline>''
         @ ''\<newline>''
         @ ''        ''
         @ ''**IMPORTANT:** Structure the output using Markdown. Use level 2 ''
         @ ''headings (##) for each week (e.g., `## Week 1`). Use level 3 headings ''
         @ ''(###) for each day within the week (e.g., `### Monday - Workout A`, ''
         @ ''`### Tuesday - Rest`). Use bullet points for exercises, sets, reps, ''
         @ ''and rest periods. Include brief 'Warm-up' and 'Cool-down' sections ''
         @ ''for workout days. Ensure the plan aligns with the user's goal and ''
         @ ''experience level.''
         @ ''\<newline>''
         @ ''        '')"

definition schedule_request :: "string \<Rightarrow> api_request" where
  "schedule_request prompt =
     \<lparr>model = GROQ_MODEL,
      messages =
        [\<lparr>role = ''system'',
          content = ''You are a helpful assistant that creates fitness schedules ''
                    @ ''formatted in Markdown.''\<rparr>,
         \<lparr>role = ''user'', content = prompt\<rparr>],
      temperature = py_lit (7 / 10),
      max_tokens = 2000,
      top_p = 1,
      stream = False\<rparr>"

text \<open>The lead-in sentence opens with the calendar emoji \<open>U+1F4C5\<close>, four bytes.\<close>

definition schedule_message :: "string \<Rightarrow> string" where
  "schedule_message schedule_content =
     ''**'' @ [CHR 0xF0, CHR 0x9F, CHR 0x93, CHR 0x85]
     @ '' Here is a sample 4-week schedule based on your profile:**\<newline>''
     @ ''[SCHEDULE_START]\<newline>''
     @ schedule_content @ ''\<newline>''
     @ ''[SCHEDULE_END]''"

text \<open>
  \<open>generate_and_save_schedule\<close>. The result is the returned boolean, what was written,
  the requests sent to the service, and the store. The tuple of details is never
  falsy, so the first \<open>return False\<close> of the source is not reached.
\<close>

definition generate_and_save_schedule ::
  "groq_client option \<Rightarrow> string option \<Rightarrow> timestamp \<Rightarrow> sqlite_int \<Rightarrow> database
     \<Rightarrow> bool \<times> effect list \<times> api_request list \<times> database" where
  "generate_and_save_schedule client fault now profile_id db =
     (let attempt = Printed (''Attempting to generate schedule for profile_id: ''
                             @ str_int (sint profile_id));
          details = get_profile_details profile_id db;
          prompt = schedule_prompt details
      in case client of
           None \<Rightarrow> (False, [attempt, St_error ''Groq client not initialized.''], [], db)
         | Some cl \<Rightarrow>
             (let sending = Printed (''Sending schedule generation request for profile ''
                                     @ str_int (sint profile_id) @ ''...'');
                  req = schedule_request prompt
              in case complete cl req of
                   Inr schedule_content \<Rightarrow>
                     (let received = Printed (''Schedule content received for profile ''
                                              @ str_int (sint profile_id) @ ''.'')
                      in case save_chat_message fault now profile_id ''assistant''
                                (schedule_message schedule_content) db of
                           (saved, out, db') \<Rightarrow>
                             if saved
                             then (True,
                                   [attempt, sending, received] @ out
                                   @ [Printed (''Schedule saved successfully for profile ''
                                               @ str_int (sint profile_id) @ ''.'')],
                                   [req], db')
                             else (False,
                                   [attempt, sending, received] @ out
                                   @ [St_error
                                        ''Failed to save the generated schedule message.''],
                                   [req], db'))
                 | Inl (GroqError code m) \<Rightarrow>
                     (False,
                      [attempt, sending,
                       Printed (''Groq API error during schedule generation: '' @ m),
                       St_error (''API Error generating schedule: '' @ m)],
                      [req], db)
                 | Inl (OtherException ty m) \<Rightarrow>
                     (False,
                      [attempt, sending,
                       Printed (''Error in generate_and_save_schedule: '' @ m),
                       St_error
                         ''An unexpected error occurred while generating the schedule.''],
                      [req], db)))"

section \<open>The chat handler\<close>

text \<open>\<open>if v: context_parts.append(render v)\<close>\<close>

definition append_if :: "('a \<Rightarrow> bool) \<Rightarrow> ('a \<Rightarrow> string) \<Rightarrow> 'a option \<Rightarrow> string list" where
  "append_if truthy render v =
     (case v of Some x \<Rightarrow> if truthy x then [render x] else [] | None \<Rightarrow> [])"

text \<open>
  The list \<open>context_parts\<close> of the handler. The argument \<open>float_repr\<close> is how an
  f-string renders a float (the shortest decimal that reads back as the same float).
\<close>

definition context_parts :: "(pyfloat \<Rightarrow> string) \<Rightarrow> profile_details \<Rightarrow> string list" where
  "context_parts float_repr details =
     (case details of
        (ctx_goal, ctx_experience, ctx_age, ctx_sex, ctx_height, ctx_weight, ctx_activity,
         ctx_diet, ctx_equip, ctx_notes) \<Rightarrow>
         [''Goal: '' @ ctx_goal, ''Experience: '' @ ctx_experience]
         @ append_if int_truthy (\<lambda>v. ''Age: '' @ str_int v) ctx_age
         @ append_if str_truthy (\<lambda>v. ''Sex: '' @ v) ctx_sex
         @ append_if float_truthy (\<lambda>v. ''Height: '' @ float_repr v @ '' cm'') ctx_height
         @ append_if float_truthy (\<lambda>v. ''Weight: '' @ float_repr v @ '' kg'') ctx_weight
         @ append_if str_truthy (\<lambda>v. ''Activity Level: '' @ v) ctx_activity
         @ append_if str_truthy (\<lambda>v. ''Dietary Notes: '' @ v) ctx_diet
         @ append_if str_truthy (\<lambda>v. ''Equipment: '' @ v) ctx_equip
         @ append_if str_truthy (\<lambda>v. ''General Notes: '' @ v) ctx_notes)"

definition context_string :: "(pyfloat \<Rightarrow> string) \<Rightarrow> profile_details \<Rightarrow> string" where
  "context_string float_repr details = join ''; '' (context_parts float_repr details)"

text \<open>
  The f-string of \<open>contextual_prompt\<close> writes \<open>\\n\\n\<close>: two backslashes each followed
  by the letter \<open>n\<close>, not two line breaks.
\<close>

definition contextual_prompt :: "string \<Rightarrow> string \<Rightarrow> string" where
  "contextual_prompt ctx prompt =
     ''(My Profile: '' @ ctx @ '')'' @ [CHR 0x5C, CHR ''n'', CHR 0x5C, CHR ''n''] @ prompt"

text \<open>
  The streaming loop and its two handlers: the text left in \<open>full_response\<close>, and what
  the handlers write.
\<close>

definition receive :: "string option list \<times> api_error option \<Rightarrow> string \<times> effect list" where
  "receive outcome =
     (case outcome of
        (chunks, None) \<Rightarrow>
          (foldl (\<lambda>response_stream chunk_content.
                    case chunk_content of
                      Some c \<Rightarrow> if str_truthy c then response_stream @ c else response_stream
                    | None \<Rightarrow> response_stream)
                 [] chunks,
           [])
      | (chunks, Some (GroqError status_code m)) \<Rightarrow>
          (''Sorry, I encountered an API error. Please check the console or logs ''
           @ ''for details: '' @ m,
           [St_error (''Groq API Error: '' @ str_int status_code @ '' - '' @ m),
            Printed (''Groq API Error Details: '' @ m)])
      | (chunks, Some (OtherException ty m)) \<Rightarrow>
          (''Sorry, an unexpected error occurred: '' @ m,
           [St_error (''An unexpected error occurred: '' @ ty @ '' - '' @ m),
            Printed (''Unexpected Error Details: '' @ m)]))"

text \<open>The condition under which the handler saves \<open>full_response\<close>.\<close>

definition persisted :: "string \<Rightarrow> bool" where
  "persisted full_response \<longleftrightarrow>
     str_truthy full_response \<and> \<not> only_whitespace full_response
     \<and> \<not> startswith full_response ''Sorry, I encountered an''"

text \<open>
  What one run of the handler is given besides the store and the transcript: the text
  of \<open>SYSTEM_PROMPT\<close> (a fixed text of the source, whose wording plays no part here),
  the rendering of floats, the client, the value of the temperature slider in the
  session state if it has one, and for each of the two saves the failure from outside
  the data, if any, and the time of the store's clock.
\<close>

record turn_env =
  SYSTEM_PROMPT :: string
  float_repr :: "pyfloat \<Rightarrow> string"
  client :: groq_client
  temperature_slider :: "pyfloat option"
  user_fault :: "string option"
  user_time :: timestamp
  reply_fault :: "string option"
  reply_time :: timestamp

record turn_result =
  store :: database
  session_messages :: "message list"
  requests :: "api_request list"
  full_response :: string
  effects :: "effect list"

text \<open>The request that the handler sends for a prompt.\<close>

definition chat_request :: "turn_env \<Rightarrow> message list \<Rightarrow> profile_details \<Rightarrow> string \<Rightarrow> api_request" where
  "chat_request env history_to_send details prompt =
     \<lparr>model = GROQ_MODEL,
      messages =
        [\<lparr>role = ''system'', content = SYSTEM_PROMPT env\<rparr>]
        @ map (\<lambda>msg. \<lparr>role = role msg, content = content msg\<rparr>) history_to_send
        @ [\<lparr>role = ''user'',
            content = contextual_prompt (context_string (float_repr env) details) prompt\<rparr>],
      temperature = (case temperature_slider env of Some t \<Rightarrow> t | None \<Rightarrow> py_lit (7 / 10)),
      max_tokens = 2000,
      top_p = 1,
      stream = True\<rparr>"

text \<open>
  The block under \<open>if prompt := st.chat_input(...)\<close>: one user message, from its save to
  the save of the answer. The calls that only draw on the page are left out.
\<close>

definition chat_turn ::
  "turn_env \<Rightarrow> sqlite_int \<Rightarrow> string \<Rightarrow> message list \<Rightarrow> database \<Rightarrow> turn_result" where
  "chat_turn env current_profile_id prompt session db =
     (case save_chat_message (user_fault env) (user_time env) current_profile_id
             ''user'' prompt db of
        (saved1, out1, db1) \<Rightarrow>
          (let messages1 = session @ [\<lparr>role = ''user'', content = prompt\<rparr>];
               history_to_send = butlast messages1;
               details = get_profile_details current_profile_id db1;
               req = chat_request env history_to_send details prompt
           in case receive (stream_chunks (client env) req) of
                (response, out2) \<Rightarrow>
                  if persisted response
                  then (case save_chat_message (reply_fault env) (reply_time env)
                               current_profile_id ''assistant'' response db1 of
                          (saved2, out3, db2) \<Rightarrow>
                            \<lparr>store = db2,
                             session_messages =
                               messages1 @ [\<lparr>role = ''assistant'', content = response\<rparr>],
                             requests = [req], full_response = response,
                             effects = out1 @ out2 @ out3\<rparr>)
                  else if \<not> str_truthy response \<or> only_whitespace response
                  then \<lparr>store = db1, session_messages = messages1, requests = [req],
                        full_response = response,
                        effects = out1 @ out2
                          @ [Printed ''Received empty or whitespace-only response from API.'']\<rparr>
                  else \<lparr>store = db1, session_messages = messages1, requests = [req],
                        full_response = response, effects = out1 @ out2\<rparr>))"

text \<open>The columns of a chat row that the program chooses: profile, role and content.\<close>

definition row_key :: "chat_history_row \<Rightarrow> int \<times> string \<times> string" where
  "row_key r = (ch_profile_id r, ch_role r, ch_content r)"

section \<open>Example states\<close>

text \<open>
  A store as the program itself builds it: first run, a second profile \<open>Sam\<close> (id 2),
  one chat turn and one log entry for each of the two profiles.
\<close>

definition first_run_db :: database where
  "first_run_db = init_db empty_db"

definition two_profiles_db :: database where
  "two_profiles_db =
     (let db1 = snd (snd (create_profile None ''Sam'' first_run_db));
          db2 = snd (snd (save_chat_message None 100 1 ''user'' ''hi'' db1));
          db3 = snd (snd (save_chat_message None 101 2 ''user'' ''plan my week'' db2));
          db4 = snd (snd (log_entry None 102 1 ''Note'' ''rest day'' None db3))
      in snd (snd (log_entry None 103 2 ''Weigh-in'' [] (Some (Fin 80)) db4)))"

text \<open>The same store after one more user turn of profile 2, saved at time 101.\<close>

definition after_hello :: database where
  "after_hello = snd (snd (save_chat_message None 101 2 ''user'' ''hello'' two_profiles_db))"

text \<open>
  A rendering of floats for the examples: right for the floats of whole value that
  occur in them, as Python writes \<open>80.0\<close> for the float 80.
\<close>

definition whole_repr :: "pyfloat \<Rightarrow> string" where
  "whole_repr v = (case v of Fin x \<Rightarrow> str_int \<lfloor>x\<rfloor> @ ''.0'' | PosInf \<Rightarrow> ''inf''
                   | NegInf \<Rightarrow> ''-inf'' | NaN \<Rightarrow> ''nan'')"

text \<open>
  A client whose calls raise an exception that is not a \<open>GroqError\<close>, and the
  environment of a chat turn with it.
\<close>

definition failing_client :: groq_client where
  "failing_client =
     \<lparr>complete = (\<lambda>req. Inl (OtherException ''TimeoutError'' ''timed out'')),
      stream_chunks = (\<lambda>req. ([], Some (OtherException ''TimeoutError'' ''timed out'')))\<rparr>"

definition failing_env :: turn_env where
  "failing_env =
     \<lparr>SYSTEM_PROMPT = ''You are an advanced AI Fitness Coach.'',
      float_repr = whole_repr, client = failing_client, temperature_slider = None,
      user_fault = None, user_time = 200, reply_fault = None, reply_time = 201\<rparr>"

text \<open>A client that answers, and the environment of a chat turn with it.\<close>

definition coach_client :: groq_client where
  "coach_client =
     \<lparr>complete = (\<lambda>req. Inr ''Week 1 plan...''),
      stream_chunks = (\<lambda>req. ([Some ''Keep your '', None, Some ''back straight.''], None))\<rparr>"

definition coach_env :: turn_env where
  "coach_env =
     \<lparr>SYSTEM_PROMPT = ''You are an advanced AI Fitness Coach.'',
      float_repr = whole_repr, client = coach_client, temperature_slider = None,
      user_fault = None, user_time = 200, reply_fault = None, reply_time = 201\<rparr>"

text \<open>The store after the schedule of profile 2 has been saved at time 200.\<close>

definition after_schedule :: database where
  "after_schedule =
     snd (snd (save_chat_message None 200 2 ''assistant'' (schedule_message ''Week 1 plan...'')
                 two_profiles_db))"

text \<open>The store with two profiles after the settings of profile 2 have been saved.\<close>

definition sam_db :: database where
  "sam_db =
     snd (snd (update_profile None 2 ''Lose fat'' ''Beginner'' (Some 30) (Some ''Female'')
                 (Some (Fin 170)) (Some (Fin 65))
                 (Some ''Sedentary (little to no exercise)'') None (Some ''dumbbells'') None
                 two_profiles_db))"

section \<open>Properties of the BMI helper\<close>

text \<open>The floats that the literals of the category chain denote.\<close>

lemma double_18_5: "round_double (37 / 2) = 37 / 2"
  by code_simp

lemma double_24_9: "round_double (249 / 10) = 3504363460047667 / 140737488355328"
  by code_simp

lemma double_29_9: "round_double (299 / 10) = 4208050901824307 / 140737488355328"
  by code_simp

text \<open>
  Both floats lie just below the decimals they are written as, so a value that is at
  least the decimal \<open>24.9\<close> (or \<open>29.9\<close>) is at least the float \<open>24.9\<close> (or \<open>29.9\<close>).
\<close>

lemma decimal_above_literal:
  "249 / 10 \<le> x \<Longrightarrow> float_le (py_lit (249 / 10)) (Fin x)"
  "299 / 10 \<le> x \<Longrightarrow> float_le (py_lit (299 / 10)) (Fin x)"
  by (simp_all add: py_lit_def double_24_9 double_29_9)

lemma bmi_category_gap:
  assumes "(float_le (py_lit (249 / 10)) bmi \<and> float_lt bmi (Fin 25))
         \<or> (float_le (py_lit (299 / 10)) bmi \<and> float_lt bmi (Fin 30))"
  shows "bmi_category bmi = ''Obesity''"
  using assms
  by (cases bmi) (auto simp: bmi_category_def py_lit_def double_18_5 double_24_9 double_29_9)

lemma square_of_1_75:
  "round_toward False (49 / 16) = 49 / 16" "round_toward True (49 / 16) = 49 / 16"
  by code_simp+

lemma bmi_70_175: "compute_bmi pow_up (Fin 70) (Fin 175) = Inr (to_float (160 / 7))"
proof -
  have "float_div (Fin 175) (Fin 100) = Inr (Fin (7 / 4))"
    by code_simp
  moreover have "float_pow2 pow_up (Fin (7 / 4)) = Inr (Fin (49 / 16))"
  proof -
    have "ilog2 \<bar>49 / 16\<bar> = 1" by code_simp
    then show ?thesis by (simp add: square_of_1_75)
  qed
  ultimately show ?thesis by (simp add: compute_bmi_def)
qed

lemma bmi_70_175_rounded:
  "to_float (160 / 7) = Fin (round_double (160 / 7))"
  "py_round1 (Fin (round_double (160 / 7))) = py_lit (229 / 10)"
  "bmi_category (Fin (round_double (160 / 7))) = ''Normal weight''"
  "\<not> invalid_input (Fin 70) (Fin 175)"
  by code_simp+

text \<open>
  C9. \<open>calculate_bmi(70, 175)\<close> returns the float \<open>22.9\<close> and the category
  \<open>Normal weight\<close>, whichever way the C library's \<open>pow\<close> rounds. For a height of zero
  and any weight, \<open>None\<close> included, the result is \<open>None\<close> with the message
  \<open>Enter valid height and weight\<close>: the function returns it, so no
  \<open>ZeroDivisionError\<close> is raised.
\<close>

theorem calculate_bmi_examples:
  "calculate_bmi pow_up (Some (Fin 70)) (Some (Fin 175))
     = Inr (Some (py_lit (229 / 10)), ''Normal weight'')
   \<and> calculate_bmi pow_up weight (Some (Fin 0))
       = Inr (None, ''Enter valid height and weight'')"
proof
  show "calculate_bmi pow_up (Some (Fin 70)) (Some (Fin 175))
          = Inr (Some (py_lit (229 / 10)), ''Normal weight'')"
    by (simp add: bmi_70_175 bmi_70_175_rounded del: py_round1.simps)
  show "calculate_bmi pow_up weight (Some (Fin 0))
          = Inr (None, ''Enter valid height and weight'')"
    by (cases weight) (simp_all add: invalid_input_def)
qed

theorem calculate_bmi_examples_witness:
  "calculate_bmi (\<lambda>x. True) (Some (Fin 70)) (Some (Fin 175))
     = Inr (Some (py_lit (229 / 10)), ''Normal weight'')
   \<and> calculate_bmi (\<lambda>x. True) (Some (Fin 82)) (Some (Fin 0))
       = Inr (None, ''Enter valid height and weight'')
   \<and> calculate_bmi (\<lambda>x. False) None (Some (Fin 0))
       = Inr (None, ''Enter valid height and weight'')"
  using calculate_bmi_examples [of "\<lambda>x. True" "Some (Fin 82)"]
    calculate_bmi_examples [of "\<lambda>x. False" None]
  by blast

text \<open>
  C10. The category intervals leave two gaps. When the inputs pass the guard and the
  computed BMI, however \<open>pow\<close> rounds, is at least the float \<open>24.9\<close> and below 25, or at least the float \<open>29.9\<close>
  and below 30, the category returned is \<open>Obesity\<close>.
\<close>

theorem bmi_gap_is_obesity:
  assumes "\<not> invalid_input w h" and "compute_bmi pow_up w h = Inr bmi"
    and "(float_le (py_lit (249 / 10)) bmi \<and> float_lt bmi (Fin 25))
         \<or> (float_le (py_lit (299 / 10)) bmi \<and> float_lt bmi (Fin 30))"
  shows "calculate_bmi pow_up (Some w) (Some h) = Inr (Some (py_round1 bmi), ''Obesity'')"
  using assms(1,2) bmi_category_gap [OF assms(3)] by simp

lemma gap_input_valid: "\<not> invalid_input (Fin (399 / 16)) (Fin 100)"
  by code_simp

lemma gap_input_bmi:
  "compute_bmi (\<lambda>x. False) (Fin (399 / 16)) (Fin 100) = Inr (Fin (399 / 16))"
  by code_simp

lemma gap_input_in_gap:
  "float_le (py_lit (249 / 10)) (Fin (399 / 16)) \<and> float_lt (Fin (399 / 16)) (Fin 25)"
  by code_simp

lemma gap_input_rounded: "py_round1 (Fin (399 / 16)) = py_lit (249 / 10)"
  by code_simp

theorem bmi_gap_is_obesity_witness:
  "\<not> invalid_input (Fin (399 / 16)) (Fin 100)
   \<and> compute_bmi (\<lambda>x. False) (Fin (399 / 16)) (Fin 100) = Inr (Fin (399 / 16))
   \<and> float_le (py_lit (249 / 10)) (Fin (399 / 16)) \<and> float_lt (Fin (399 / 16)) (Fin 25)
   \<and> calculate_bmi (\<lambda>x. False) (Some (Fin (399 / 16))) (Some (Fin 100))
       = Inr (Some (py_lit (249 / 10)), ''Obesity'')"
proof -
  have "calculate_bmi (\<lambda>x. False) (Some (Fin (399 / 16))) (Some (Fin 100))
      = Inr (Some (py_round1 (Fin (399 / 16))), ''Obesity'')"
    by (rule bmi_gap_is_obesity [OF gap_input_valid gap_input_bmi disjI1 [OF gap_input_in_gap]])
  then have "calculate_bmi (\<lambda>x. False) (Some (Fin (399 / 16))) (Some (Fin 100))
      = Inr (Some (py_lit (249 / 10)), ''Obesity'')"
    by (simp only: gap_input_rounded)
  with gap_input_valid gap_input_bmi gap_input_in_gap show ?thesis by blast
qed

section \<open>Properties of the store\<close>

lemma first_run_db_eq:
  "first_run_db =
     \<lparr>user_profile =
        [\<lparr>up_id = 1, profile_name = ''Default'', fitness_goal = ''General Fitness'',
          experience_level = ''Beginner'', up_age = None, up_sex = None, height_cm = None,
          weight_kg = None, activity_level = None, dietary_prefs = None, equipment = None,
          profile_notes = None\<rparr>],
      chat_history = [], workout_log = [],
      seq_user_profile = 1, seq_chat_history = 0, seq_workout_log = 0\<rparr>"
  by (simp add: first_run_db_def init_db_def empty_db_def insert_user_profile_def
        sqlite3_connect_def next_rowid_def)

lemma two_profiles_db_eq:
  "two_profiles_db =
     \<lparr>user_profile =
        [\<lparr>up_id = 1, profile_name = ''Default'', fitness_goal = ''General Fitness'',
          experience_level = ''Beginner'', up_age = None, up_sex = None, height_cm = None,
          weight_kg = None, activity_level = None, dietary_prefs = None, equipment = None,
          profile_notes = None\<rparr>,
         \<lparr>up_id = 2, profile_name = ''Sam'', fitness_goal = ''General Fitness'',
          experience_level = ''Beginner'', up_age = None, up_sex = None, height_cm = None,
          weight_kg = None, activity_level = None, dietary_prefs = None, equipment = None,
          profile_notes = None\<rparr>],
      chat_history =
        [\<lparr>ch_id = 1, ch_profile_id = 1, ch_timestamp = 100, ch_role = ''user'',
          ch_content = ''hi''\<rparr>,
         \<lparr>ch_id = 2, ch_profile_id = 2, ch_timestamp = 101, ch_role = ''user'',
          ch_content = ''plan my week''\<rparr>],
      workout_log =
        [\<lparr>wl_id = 1, wl_profile_id = 1, wl_timestamp = 102, log_type = ''Note'',
          wl_notes = ''rest day'', wl_weight_kg = None\<rparr>,
         \<lparr>wl_id = 2, wl_profile_id = 2, wl_timestamp = 103, log_type = ''Weigh-in'',
          wl_notes = [], wl_weight_kg = Some (Fin 80)\<rparr>],
      seq_user_profile = 2, seq_chat_history = 2, seq_workout_log = 2\<rparr>"
  by (simp add: two_profiles_db_def first_run_db_eq create_profile_def save_chat_message_def
        log_entry_def with_connection_def insert_user_profile_def insert_chat_history_def
        insert_workout_log_def sqlite3_connect_def next_rowid_def Let_def)

subsection \<open>Profiles\<close>

text \<open>
  C6. \<open>get_profile_details\<close> is a total function from the ids that a statement can
  take into the ten-column tuple. For an id that no profile has, the result is the
  tuple of defaults; for an id that a profile has, it is the columns of a row with
  that id.
\<close>

theorem get_profile_details_total:
  "(sint profile_id \<notin> set (map up_id (user_profile db)) \<longrightarrow>
      get_profile_details profile_id db
        = (''General Fitness'', ''Beginner'', None, None, None, None, None, None, None, None))
   \<and> (sint profile_id \<in> set (map up_id (user_profile db)) \<longrightarrow>
      (\<exists>r \<in> set (user_profile db). up_id r = sint profile_id \<and>
         get_profile_details profile_id db
           = (fitness_goal r, experience_level r, up_age r, up_sex r, height_cm r,
              weight_kg r, activity_level r, dietary_prefs r, equipment r,
              profile_notes r)))"
proof (intro conjI impI)
  assume "sint profile_id \<notin> set (map up_id (user_profile db))"
  then have "find (\<lambda>r. up_id r = sint profile_id) (user_profile db) = None"
    by (force simp: find_None_iff)
  then show "get_profile_details profile_id db
        = (''General Fitness'', ''Beginner'', None, None, None, None, None, None, None, None)"
    by (simp add: get_profile_details_def)
next
  assume "sint profile_id \<in> set (map up_id (user_profile db))"
  then obtain r where r: "find (\<lambda>r. up_id r = sint profile_id) (user_profile db) = Some r"
    by (cases "find (\<lambda>r. up_id r = sint profile_id) (user_profile db)")
       (force simp: find_None_iff)+
  then have "r \<in> set (user_profile db)" "up_id r = sint profile_id"
    by (auto simp: find_Some_iff)
  with r show "\<exists>r \<in> set (user_profile db). up_id r = sint profile_id \<and>
         get_profile_details profile_id db
           = (fitness_goal r, experience_level r, up_age r, up_sex r, height_cm r,
              weight_kg r, activity_level r, dietary_prefs r, equipment r,
              profile_notes r)"
    by (auto simp: get_profile_details_def)
qed

theorem get_profile_details_total_witness:
  "sint (7 :: sqlite_int) \<notin> set (map up_id (user_profile two_profiles_db))
   \<and> get_profile_details 7 two_profiles_db
       = (''General Fitness'', ''Beginner'', None, None, None, None, None, None, None, None)
   \<and> get_profile_details (- 9223372036854775808) two_profiles_db
       = (''General Fitness'', ''Beginner'', None, None, None, None, None, None, None, None)
   \<and> get_profile_details 9223372036854775807 two_profiles_db
       = (''General Fitness'', ''Beginner'', None, None, None, None, None, None, None, None)"
proof -
  have m: "sint (7 :: sqlite_int) \<notin> set (map up_id (user_profile two_profiles_db))"
    "sint (- 9223372036854775808 :: sqlite_int) \<notin> set (map up_id (user_profile two_profiles_db))"
    "sint (9223372036854775807 :: sqlite_int) \<notin> set (map up_id (user_profile two_profiles_db))"
    by (simp_all add: two_profiles_db_eq)
  with get_profile_details_total [of 7 two_profiles_db]
    get_profile_details_total [of "- 9223372036854775808" two_profiles_db]
    get_profile_details_total [of 9223372036854775807 two_profiles_db]
  show ?thesis by blast
qed

text \<open>
  The claim C8 as it is written has \<open>create_profile\<close> return a failure that tells the
  duplicate name apart. At the store with the profiles \<open>Default\<close> and \<open>Sam\<close>, the
  value returned for the taken name \<open>Sam\<close> is the value returned for the free name
  \<open>Zoe\<close> when the storage fails: both are \<open>None\<close>.
\<close>

theorem duplicate_failure_not_distinguished:
  "''Sam'' \<in> set (map profile_name (user_profile two_profiles_db))
   \<and> ''Zoe'' \<notin> set (map profile_name (user_profile two_profiles_db))
   \<and> fst (create_profile None ''Sam'' two_profiles_db) = None
   \<and> fst (create_profile (Some ''disk I/O error'') ''Zoe'' two_profiles_db) = None"
  by (simp add: two_profiles_db_eq create_profile_def with_connection_def
        insert_user_profile_def)

text \<open>
  C8, amended. When the name is already the name of a profile, \<open>create_profile\<close>
  returns \<open>None\<close>, never an id, and leaves the store, and so the number of profiles,
  as it was, whether or not something else fails. \<open>None\<close> is also what it returns for
  any name when the storage fails for another reason; what tells the duplicate
  apart, when nothing else fails, is the line it prints.
\<close>

theorem create_profile_duplicate:
  assumes "name \<in> set (map profile_name (user_profile db))"
  shows "create_profile None name db
           = (None,
              [Printed (''Profile name '' @ [CHR 0x27] @ name @ [CHR 0x27]
                        @ '' already exists.'')],
              db)
         \<and> fst (create_profile fault name db) = None
         \<and> snd (snd (create_profile fault name db)) = db
         \<and> length (user_profile (snd (snd (create_profile fault name db))))
             = length (user_profile db)
         \<and> create_profile (Some m) other db
             = (None, [Printed (''Error creating profile: '' @ m)], db)"
  using assms
  by (cases fault) (simp_all add: create_profile_def with_connection_def insert_user_profile_def)

theorem create_profile_duplicate_witness:
  "''Sam'' \<in> set (map profile_name (user_profile two_profiles_db))
   \<and> create_profile None ''Sam'' two_profiles_db
       = (None, [Printed ''Profile name 'Sam' already exists.''], two_profiles_db)
   \<and> create_profile (Some ''disk I/O error'') ''Zoe'' two_profiles_db
       = (None, [Printed ''Error creating profile: disk I/O error''], two_profiles_db)"
proof -
  have m: "''Sam'' \<in> set (map profile_name (user_profile two_profiles_db))"
    by (simp add: two_profiles_db_eq)
  from create_profile_duplicate [OF m, of None "''disk I/O error''" "''Zoe''"] m
  show ?thesis by simp
qed

lemma length_get_all_profiles: "length (get_all_profiles db) = length (user_profile db)"
  by (simp add: get_all_profiles_def)

text \<open>
  C3. With exactly one profile in the store, \<open>delete_profile\<close> returns \<open>False\<close>, shows
  the error \<open>Cannot delete the last profile.\<close> and returns the store it was given.
\<close>

theorem delete_last_profile_refused:
  assumes "length (user_profile db) = 1"
  shows "delete_profile fault profile_id db
           = (False, [St_error ''Cannot delete the last profile.''], db)"
  using assms by (simp add: delete_profile_def length_get_all_profiles)

theorem delete_last_profile_refused_witness:
  "length (user_profile first_run_db) = 1
   \<and> delete_profile None 1 first_run_db
       = (False, [St_error ''Cannot delete the last profile.''], first_run_db)"
proof -
  have l: "length (user_profile first_run_db) = 1"
    by (simp add: first_run_db_eq)
  from delete_last_profile_refused [OF l, of None 1] l show ?thesis by simp
qed

subsection \<open>Deleting a profile and its rows\<close>

text \<open>
  \<open>delete_profile\<close> runs its statement on a fresh connection, so the two child tables
  come back as they were, whatever the profile.
\<close>

lemma delete_profile_children:
  "chat_history (snd (snd (delete_profile fault profile_id db))) = chat_history db
   \<and> workout_log (snd (snd (delete_profile fault profile_id db))) = workout_log db"
  by (cases fault)
     (simp_all add: delete_profile_def with_connection_def delete_user_profile_def
        sqlite3_connect_def Let_def)

text \<open>
  On a connection that enforces foreign keys the same statement removes the rows of
  the deleted profile from both child tables and no other row.
\<close>

lemma cascade_when_enforced:
  assumes "sint profile_id \<in> set (map up_id (user_profile db))"
    and "delete_user_profile profile_id \<lparr>foreign_keys = True\<rparr> db = Inr (u, db')"
  shows "user_profile db' = filter (\<lambda>r. up_id r \<noteq> sint profile_id) (user_profile db)
       \<and> chat_history db'
           = filter (\<lambda>r. ch_profile_id r \<noteq> sint profile_id) (chat_history db)
       \<and> workout_log db'
           = filter (\<lambda>r. wl_profile_id r \<noteq> sint profile_id) (workout_log db)"
  using assms by (auto simp: delete_user_profile_def Let_def)

text \<open>
  C2, at a store with two profiles: deleting profile 2 succeeds and removes its row
  from \<open>user_profile\<close>, and the chat turn and the log entry of profile 2 are still in
  their tables afterwards.
\<close>

theorem delete_profile_leaves_child_rows:
  "delete_profile None 2 two_profiles_db
     = (True, [],
        two_profiles_db\<lparr>user_profile := [hd (user_profile two_profiles_db)]\<rparr>)
   \<and> ch_profile_id (chat_history (snd (snd (delete_profile None 2 two_profiles_db))) ! 1) = 2
   \<and> wl_profile_id (workout_log (snd (snd (delete_profile None 2 two_profiles_db))) ! 1) = 2"
  by (simp add: two_profiles_db_eq delete_profile_def get_all_profiles_def with_connection_def
        delete_user_profile_def sqlite3_connect_def Let_def)

subsection \<open>The conversation of a profile\<close>

lemma insort_key_before_last:
  "f a \<le> f x \<Longrightarrow> insort_key f a (ys @ [x]) = insort_key f a ys @ [x]"
  by (induction ys) auto

lemma sort_key_snoc:
  assumes "\<forall>y \<in> set xs. f y \<le> f x"
  shows "sort_key f (xs @ [x]) = sort_key f xs @ [x]"
  using assms
proof (induction xs)
  case Nil
  then show ?case by simp
next
  case (Cons a xs)
  then have "sort_key f (xs @ [x]) = sort_key f xs @ [x]" by simp
  moreover have "f a \<le> f x" using Cons.prems by simp
  ultimately show ?case
    by (simp add: sort_key_def insort_key_before_last)
qed

lemma save_chat_message_success:
  assumes "save_chat_message fault now p r c db = (True, out, db')"
  shows "fault = None \<and> out = []
       \<and> db' = db\<lparr>chat_history := chat_history db @
                      [\<lparr>ch_id = next_rowid (seq_chat_history db) (map ch_id (chat_history db)),
                        ch_profile_id = sint p, ch_timestamp = now, ch_role = r,
                        ch_content = c\<rparr>],
                    seq_chat_history :=
                      next_rowid (seq_chat_history db) (map ch_id (chat_history db))\<rparr>"
  using assms
  by (cases fault)
     (auto simp: save_chat_message_def with_connection_def insert_chat_history_def
        sqlite3_connect_def Let_def)

lemma load_chat_history_rows:
  "fst (load_chat_history None p db)
     = map (\<lambda>r. \<lparr>role = ch_role r, content = ch_content r\<rparr>) (ordered_chat_rows p db)"
  by (simp add: load_chat_history_def with_connection_def select_chat_history_def comp_def)

lemma sorted_ordered_chat_rows: "sorted (map ch_timestamp (ordered_chat_rows p db))"
  by (simp add: ordered_chat_rows_def)

text \<open>
  The claim C7 as it is written speaks of every store. In the store with two
  profiles the one turn of profile 2 has the timestamp 101. A user turn \<open>hello\<close> saved
  for profile 2 when the clock of the store reads 100 is saved, and the history then
  loaded for profile 2 has it first: the last element is the older turn.
\<close>

theorem appended_turn_not_last:
  "fst (save_chat_message None 100 2 ''user'' ''hello'' two_profiles_db) = True
   \<and> fst (load_chat_history None 2
            (snd (snd (save_chat_message None 100 2 ''user'' ''hello'' two_profiles_db))))
       = [\<lparr>role = ''user'', content = ''hello''\<rparr>,
          \<lparr>role = ''user'', content = ''plan my week''\<rparr>]
   \<and> last (fst (load_chat_history None 2
              (snd (snd (save_chat_message None 100 2 ''user'' ''hello'' two_profiles_db)))))
       \<noteq> \<lparr>role = ''user'', content = ''hello''\<rparr>"
  by (simp add: two_profiles_db_eq save_chat_message_def with_connection_def
        insert_chat_history_def sqlite3_connect_def Let_def load_chat_history_def
        select_chat_history_def ordered_chat_rows_def next_rowid_def)

text \<open>
  C7, amended. Let no turn of profile \<open>p\<close> in the store have a timestamp later than
  \<open>now\<close>, the reading of the store's clock at the save. When \<open>save_chat_message\<close> of
  the user turn \<open>hello\<close> returns \<open>True\<close>, the history then loaded for \<open>p\<close> is the turns
  of its rows in ascending order of timestamp, and its last element is that turn.
\<close>

theorem appended_turn_is_last:
  assumes clock:
      "\<forall>r \<in> set (chat_history db). ch_profile_id r = sint p \<longrightarrow> ch_timestamp r \<le> now"
    and save: "save_chat_message fault now p ''user'' ''hello'' db = (True, out, db')"
  shows "fst (load_chat_history None p db')
           = map (\<lambda>r. \<lparr>role = ch_role r, content = ch_content r\<rparr>) (ordered_chat_rows p db')
       \<and> sorted (map ch_timestamp (ordered_chat_rows p db'))
       \<and> fst (load_chat_history None p db') \<noteq> []
       \<and> last (fst (load_chat_history None p db')) = \<lparr>role = ''user'', content = ''hello''\<rparr>"
proof -
  let ?new = "\<lparr>ch_id = next_rowid (seq_chat_history db) (map ch_id (chat_history db)),
               ch_profile_id = sint p, ch_timestamp = now, ch_role = ''user'',
               ch_content = ''hello''\<rparr>"
  let ?old = "filter (\<lambda>r. ch_profile_id r = sint p) (chat_history db)"
  from save_chat_message_success [OF save]
  have h: "chat_history db' = chat_history db @ [?new]" by simp
  have "\<forall>y \<in> set ?old. ch_timestamp y \<le> ch_timestamp ?new"
    using clock by simp
  then have "sort_key ch_timestamp (?old @ [?new]) = sort_key ch_timestamp ?old @ [?new]"
    by (rule sort_key_snoc)
  then have rows: "ordered_chat_rows p db' = ordered_chat_rows p db @ [?new]"
    by (simp add: ordered_chat_rows_def h)
  have "fst (load_chat_history None p db') \<noteq> []"
    and "last (fst (load_chat_history None p db')) = \<lparr>role = ''user'', content = ''hello''\<rparr>"
    by (simp_all add: load_chat_history_rows rows)
  with load_chat_history_rows [of p db'] sorted_ordered_chat_rows [of p db']
  show ?thesis by blast
qed

lemma hello_saved:
  "save_chat_message None 101 2 ''user'' ''hello'' two_profiles_db = (True, [], after_hello)"
  by (simp add: after_hello_def save_chat_message_def with_connection_def
        insert_chat_history_def sqlite3_connect_def Let_def)

lemma hello_clock:
  "\<forall>r \<in> set (chat_history two_profiles_db).
     ch_profile_id r = sint (2 :: sqlite_int) \<longrightarrow> ch_timestamp r \<le> 101"
  by (simp add: two_profiles_db_eq)

theorem appended_turn_is_last_witness:
  "save_chat_message None 101 2 ''user'' ''hello'' two_profiles_db = (True, [], after_hello)
   \<and> fst (load_chat_history None 2 after_hello)
       = [\<lparr>role = ''user'', content = ''plan my week''\<rparr>,
          \<lparr>role = ''user'', content = ''hello''\<rparr>]
   \<and> last (fst (load_chat_history None 2 after_hello)) = \<lparr>role = ''user'', content = ''hello''\<rparr>"
proof -
  have l: "fst (load_chat_history None 2 after_hello)
       = [\<lparr>role = ''user'', content = ''plan my week''\<rparr>,
          \<lparr>role = ''user'', content = ''hello''\<rparr>]"
    by (simp add: after_hello_def two_profiles_db_eq save_chat_message_def with_connection_def
        insert_chat_history_def sqlite3_connect_def Let_def load_chat_history_def
        select_chat_history_def ordered_chat_rows_def next_rowid_def)
  from appended_turn_is_last [OF hello_clock hello_saved]
  have "last (fst (load_chat_history None 2 after_hello))
          = \<lparr>role = ''user'', content = ''hello''\<rparr>"
    by blast
  with hello_saved l show ?thesis by blast
qed

section \<open>Properties of schedule generation\<close>

text \<open>
  C5. When the completion call for the profile's prompt returns the content \<open>C\<close> and
  the save returns \<open>True\<close>, \<open>generate_and_save_schedule\<close> returns \<open>True\<close>; it has sent
  exactly one request, not streaming, at temperature 0.7 with at most 2000 tokens; and
  the store is the old one with one more chat row, an assistant turn of that profile
  whose content is the lead-in sentence, a line \<open>[SCHEDULE_START]\<close>, then \<open>C\<close>, then a
  line \<open>[SCHEDULE_END]\<close>.
\<close>

theorem schedule_saved_between_markers:
  assumes reply: "complete cl (schedule_request (schedule_prompt (get_profile_details profile_id db)))
                    = Inr C"
    and save: "save_chat_message fault now profile_id ''assistant'' (schedule_message C) db
                 = (True, out, db')"
  shows "fst (generate_and_save_schedule (Some cl) fault now profile_id db) = True
       \<and> fst (snd (snd (generate_and_save_schedule (Some cl) fault now profile_id db)))
           = [schedule_request (schedule_prompt (get_profile_details profile_id db))]
       \<and> stream (schedule_request (schedule_prompt (get_profile_details profile_id db))) = False
       \<and> temperature (schedule_request (schedule_prompt (get_profile_details profile_id db)))
           = py_lit (7 / 10)
       \<and> max_tokens (schedule_request (schedule_prompt (get_profile_details profile_id db)))
           = 2000
       \<and> snd (snd (snd (generate_and_save_schedule (Some cl) fault now profile_id db))) = db'
       \<and> butlast (chat_history db') = chat_history db
       \<and> ch_profile_id (last (chat_history db')) = sint profile_id
       \<and> ch_role (last (chat_history db')) = ''assistant''
       \<and> ch_content (last (chat_history db'))
           = ''**'' @ [CHR 0xF0, CHR 0x9F, CHR 0x93, CHR 0x85]
             @ '' Here is a sample 4-week schedule based on your profile:**''
             @ ''\<newline>[SCHEDULE_START]\<newline>'' @ C @ ''\<newline>[SCHEDULE_END]''"
proof -
  let ?req = "schedule_request (schedule_prompt (get_profile_details profile_id db))"
  let ?res = "generate_and_save_schedule (Some cl) fault now profile_id db"
  have res: "?res = (True,
      [Printed (''Attempting to generate schedule for profile_id: ''
                @ str_int (sint profile_id)),
       Printed (''Sending schedule generation request for profile ''
                @ str_int (sint profile_id) @ ''...''),
       Printed (''Schedule content received for profile '' @ str_int (sint profile_id)
                @ ''.'')]
      @ out
      @ [Printed (''Schedule saved successfully for profile '' @ str_int (sint profile_id)
                  @ ''.'')],
      [?req], db')"
    using reply save by (simp add: generate_and_save_schedule_def Let_def)
  have req: "stream ?req = False" "temperature ?req = py_lit (7 / 10)" "max_tokens ?req = 2000"
    by (simp_all add: schedule_request_def)
  from save_chat_message_success [OF save]
  have rows: "chat_history db' = chat_history db @
       [\<lparr>ch_id = next_rowid (seq_chat_history db) (map ch_id (chat_history db)),
         ch_profile_id = sint profile_id, ch_timestamp = now, ch_role = ''assistant'',
         ch_content = schedule_message C\<rparr>]"
    by simp
  have row: "butlast (chat_history db') = chat_history db"
    "ch_profile_id (last (chat_history db')) = sint profile_id"
    "ch_role (last (chat_history db')) = ''assistant''"
    "ch_content (last (chat_history db')) = schedule_message C"
    by (simp_all add: rows)
  have msg: "schedule_message C
           = ''**'' @ [CHR 0xF0, CHR 0x9F, CHR 0x93, CHR 0x85]
             @ '' Here is a sample 4-week schedule based on your profile:**''
             @ ''\<newline>[SCHEDULE_START]\<newline>'' @ C @ ''\<newline>[SCHEDULE_END]''"
    by (simp add: schedule_message_def)
  show ?thesis
    unfolding res using req row msg by simp
qed

lemma plan_reply:
  "complete coach_client
     (schedule_request (schedule_prompt (get_profile_details 2 two_profiles_db)))
     = Inr ''Week 1 plan...''"
  by (simp add: coach_client_def)

lemma plan_saved:
  "save_chat_message None 200 2 ''assistant'' (schedule_message ''Week 1 plan...'')
     two_profiles_db
     = (True, [], after_schedule)"
  by (simp add: after_schedule_def save_chat_message_def with_connection_def
        insert_chat_history_def sqlite3_connect_def Let_def)

theorem schedule_saved_between_markers_witness:
  "fst (generate_and_save_schedule (Some coach_client) None 200 2 two_profiles_db) = True
   \<and> snd (snd (snd (generate_and_save_schedule (Some coach_client) None 200 2
                      two_profiles_db)))
       = after_schedule
   \<and> ch_content (last (chat_history after_schedule))
       = ''**'' @ [CHR 0xF0, CHR 0x9F, CHR 0x93, CHR 0x85]
         @ '' Here is a sample 4-week schedule based on your profile:**''
         @ ''\<newline>[SCHEDULE_START]\<newline>Week 1 plan...\<newline>[SCHEDULE_END]''"
  using schedule_saved_between_markers [OF plan_reply plan_saved] by simp

section \<open>Properties of the chat handler\<close>

lemma chat_turn_response:
  "full_response (chat_turn env pid prompt session db)
     = fst (receive (stream_chunks (client env)
              (chat_request env session (get_profile_details pid db) prompt)))"
  by (cases "user_fault env"; cases "reply_fault env")
     (simp_all add: chat_turn_def save_chat_message_def with_connection_def
        insert_chat_history_def sqlite3_connect_def get_profile_details_def Let_def
        split: prod.splits)

lemma chat_turn_requests:
  "requests (chat_turn env pid prompt session db)
     = [chat_request env session (get_profile_details pid db) prompt]"
  by (cases "user_fault env"; cases "reply_fault env")
     (simp_all add: chat_turn_def save_chat_message_def with_connection_def
        insert_chat_history_def sqlite3_connect_def get_profile_details_def Let_def
        split: prod.splits)

text \<open>
  What a chat turn adds to the table: the user turn unless its save fails, then the
  answer when it passes the guard and its save does not fail.
\<close>

lemma chat_turn_rows:
  "map row_key (chat_history (store (chat_turn env pid prompt session db)))
     = map row_key (chat_history db)
       @ (if user_fault env = None then [(sint pid, ''user'', prompt)] else [])
       @ (if persisted (full_response (chat_turn env pid prompt session db))
             \<and> reply_fault env = None
          then [(sint pid, ''assistant'', full_response (chat_turn env pid prompt session db))]
          else [])"
  unfolding chat_turn_response
  by (cases "user_fault env"; cases "reply_fault env")
     (simp_all add: chat_turn_def save_chat_message_def with_connection_def
        insert_chat_history_def sqlite3_connect_def get_profile_details_def Let_def row_key_def
        split: prod.splits)

lemma persisted_unexpected: "persisted (''Sorry, an unexpected error occurred: '' @ m)"
  by (simp add: persisted_def str_truthy_def startswith_def space1_def space2_def space3_def)

lemma not_persisted_api_error:
  "\<not> persisted (''Sorry, I encountered an API error. Please check the console or logs ''
                 @ ''for details: '' @ m)"
  by (simp add: persisted_def startswith_def)

lemma not_persisted_blank: "only_whitespace s \<Longrightarrow> \<not> persisted s"
  by (simp add: persisted_def)


text \<open>
  C1, the case that fails. When the completion call raises an exception that is not a
  \<open>GroqError\<close> and the save of the answer does not fail, the handler's fallback text
  \<open>Sorry, an unexpected error occurred: ...\<close> passes the guard, which looks only for
  the prefix of the API-error text, and is written to the store as an assistant turn.
\<close>

theorem unexpected_error_text_is_saved:
  assumes "snd (stream_chunks (client env)
                  (chat_request env session (get_profile_details pid db) prompt))
             = Some (OtherException ty m)"
    and "reply_fault env = None"
  shows "full_response (chat_turn env pid prompt session db)
           = ''Sorry, an unexpected error occurred: '' @ m
       \<and> chat_history (store (chat_turn env pid prompt session db)) \<noteq> []
       \<and> row_key (last (chat_history (store (chat_turn env pid prompt session db))))
           = (sint pid, ''assistant'', ''Sorry, an unexpected error occurred: '' @ m)"
proof -
  let ?res = "chat_turn env pid prompt session db"
  have resp: "full_response ?res = ''Sorry, an unexpected error occurred: '' @ m"
    using assms(1)
    by (cases "stream_chunks (client env)
                 (chat_request env session (get_profile_details pid db) prompt)")
       (simp add: chat_turn_response receive_def)
  have keys: "map row_key (chat_history (store ?res))
      = (map row_key (chat_history db)
         @ (if user_fault env = None then [(sint pid, ''user'', prompt)] else []))
        @ [(sint pid, ''assistant'', ''Sorry, an unexpected error occurred: '' @ m)]"
  proof -
    have "persisted (full_response ?res)"
      by (simp only: resp persisted_unexpected)
    with chat_turn_rows [of env pid prompt session db] assms(2)
    have "map row_key (chat_history (store ?res))
      = map row_key (chat_history db)
        @ (if user_fault env = None then [(sint pid, ''user'', prompt)] else [])
        @ [(sint pid, ''assistant'', full_response ?res)]"
      by (simp only: simp_thms if_True)
    then show ?thesis by (simp only: resp append_assoc)
  qed
  then have ne: "chat_history (store ?res) \<noteq> []"
    by auto
  from keys have "last (map row_key (chat_history (store ?res)))
      = (sint pid, ''assistant'', ''Sorry, an unexpected error occurred: '' @ m)"
    by (simp only: last_snoc)
  with ne have "row_key (last (chat_history (store ?res)))
      = (sint pid, ''assistant'', ''Sorry, an unexpected error occurred: '' @ m)"
    by (simp add: last_map)
  with resp ne show ?thesis by blast
qed

theorem unexpected_error_text_is_saved_witness:
  "row_key (last (chat_history (store (chat_turn failing_env 2 ''how do I squat?'' []
                                         two_profiles_db))))
     = (2, ''assistant'', ''Sorry, an unexpected error occurred: timed out'')"
proof -
  have a: "snd (stream_chunks (client failing_env)
                  (chat_request failing_env [] (get_profile_details 2 two_profiles_db)
                     ''how do I squat?''))
             = Some (OtherException ''TimeoutError'' ''timed out'')"
    by (simp add: failing_env_def failing_client_def)
  have b: "reply_fault failing_env = None"
    by (simp add: failing_env_def)
  from unexpected_error_text_is_saved [OF a b] show ?thesis by simp
qed

text \<open>The sibling: the text of an API error is not saved.\<close>

lemma api_error_text_not_saved:
  assumes "snd (stream_chunks (client env)
                  (chat_request env session (get_profile_details pid db) prompt))
             = Some (GroqError code m)"
  shows "map row_key (chat_history (store (chat_turn env pid prompt session db)))
           = map row_key (chat_history db)
             @ (if user_fault env = None then [(sint pid, ''user'', prompt)] else [])"
proof -
  have resp: "full_response (chat_turn env pid prompt session db)
      = ''Sorry, I encountered an API error. Please check the console or logs ''
        @ ''for details: '' @ m"
    using assms
    by (cases "stream_chunks (client env)
                 (chat_request env session (get_profile_details pid db) prompt)")
       (simp add: chat_turn_response receive_def)
  show ?thesis
    using chat_turn_rows [of env pid prompt session db] not_persisted_api_error [of m]
    by (simp only: resp if_False simp_thms append_Nil2)
qed

subsection \<open>The context preamble\<close>

lemma length_join:
  "length (join sep xs) = sum_list (map length xs) + length sep * (length xs - 1)"
  by (induction sep xs rule: join.induct) simp_all

lemma in_append_if:
  "x \<in> set (append_if truthy render v) \<longleftrightarrow> (\<exists>y. v = Some y \<and> truthy y \<and> x = render y)"
  by (cases v) (auto simp: append_if_def)

lemma bex_append_if:
  "(\<exists>x \<in> set (append_if truthy render v). P x) \<longleftrightarrow> (\<exists>y. v = Some y \<and> truthy y \<and> P (render y))"
  by (cases v) (auto simp: append_if_def)

lemma context_parts_head:
  "take 2 (context_parts fr (goal, experience, age, sex, height, weight, activity, diet,
                              equip, notes))
     = [''Goal: '' @ goal, ''Experience: '' @ experience]"
  by (simp add: context_parts_def)

lemma context_parts_nonempty:
  "[] \<notin> set (context_parts fr (goal, experience, age, sex, height, weight, activity, diet,
                                 equip, notes))"
  by (simp add: context_parts_def in_append_if)

lemma context_parts_labels:
  fixes fr goal experience age sex height weight activity diet equip pnotes
  defines "parts \<equiv> context_parts fr (goal, experience, age, sex, height, weight, activity,
                                       diet, equip, pnotes)"
  shows "(\<exists>x \<in> set parts. startswith x ''Age: '') \<longleftrightarrow> (\<exists>n. age = Some n \<and> n \<noteq> 0)"
    and "(\<exists>x \<in> set parts. startswith x ''Sex: '') \<longleftrightarrow> (\<exists>s. sex = Some s \<and> s \<noteq> [])"
    and "(\<exists>x \<in> set parts. startswith x ''Height: '')
           \<longleftrightarrow> (\<exists>v. height = Some v \<and> float_truthy v)"
    and "(\<exists>x \<in> set parts. startswith x ''Weight: '')
           \<longleftrightarrow> (\<exists>v. weight = Some v \<and> float_truthy v)"
    and "(\<exists>x \<in> set parts. startswith x ''Activity Level: '')
           \<longleftrightarrow> (\<exists>s. activity = Some s \<and> s \<noteq> [])"
    and "(\<exists>x \<in> set parts. startswith x ''Dietary Notes: '')
           \<longleftrightarrow> (\<exists>s. diet = Some s \<and> s \<noteq> [])"
    and "(\<exists>x \<in> set parts. startswith x ''Equipment: '')
           \<longleftrightarrow> (\<exists>s. equip = Some s \<and> s \<noteq> [])"
    and "(\<exists>x \<in> set parts. startswith x ''General Notes: '')
           \<longleftrightarrow> (\<exists>s. pnotes = Some s \<and> s \<noteq> [])"
  unfolding parts_def
  by (simp_all add: context_parts_def bex_Un bex_append_if startswith_def
        int_truthy_def str_truthy_def)

lemma context_string_example:
  "context_string fr (''Lose fat'', ''Beginner'', None, None, None, None, None, None, None, None)
     = ''Goal: Lose fat; Experience: Beginner''"
  by (simp add: context_string_def context_parts_def append_if_def)

lemma contextual_prompt_longer: "contextual_prompt ctx prompt \<noteq> prompt"
proof
  assume "contextual_prompt ctx prompt = prompt"
  then have "length (contextual_prompt ctx prompt) = length prompt" by simp
  then show False by (simp add: contextual_prompt_def)
qed

lemma chat_request_last:
  "content (last (messages (chat_request env history details prompt)))
     = contextual_prompt (context_string (float_repr env) details) prompt
   \<and> role (last (messages (chat_request env history details prompt))) = ''user''"
  by (simp add: chat_request_def)

lemma chat_turn_user_rows:
  assumes "r \<in> set (drop (length (chat_history db))
                       (chat_history (store (chat_turn env pid prompt session db))))"
    and "ch_role r = ''user''"
  shows "ch_content r = prompt"
proof -
  let ?res = "chat_turn env pid prompt session db"
  let ?new = "(if user_fault env = None then [(sint pid, ''user'', prompt)] else [])
       @ (if persisted (full_response ?res) \<and> reply_fault env = None
          then [(sint pid, ''assistant'', full_response ?res)] else [])"
  have "map row_key (drop (length (chat_history db)) (chat_history (store ?res)))
      = drop (length (map row_key (chat_history db))) (map row_key (chat_history (store ?res)))"
    by (simp add: drop_map)
  also have "\<dots> = ?new"
    by (simp only: chat_turn_rows [of env pid prompt session db] append_eq_conv_conj
          drop_append length_map) simp
  finally have "row_key r \<in> set ?new"
    using assms(1) by (metis image_eqI set_map)
  with assms(2) show ?thesis
    by (auto simp: row_key_def split: if_splits)
qed

lemma chat_turn_user_row_saved:
  assumes "user_fault env = None"
  shows "length (chat_history db) < length (chat_history (store (chat_turn env pid prompt session db)))
       \<and> row_key (chat_history (store (chat_turn env pid prompt session db))
                    ! length (chat_history db))
           = (sint pid, ''user'', prompt)"
proof -
  let ?res = "chat_turn env pid prompt session db"
  let ?tail = "(if persisted (full_response ?res) \<and> reply_fault env = None
          then [(sint pid, ''assistant'', full_response ?res)] else [])"
  have keys: "map row_key (chat_history (store ?res))
      = map row_key (chat_history db) @ (sint pid, ''user'', prompt) # ?tail"
    using chat_turn_rows [of env pid prompt session db] assms by simp
  then have "length (map row_key (chat_history (store ?res)))
      = length (map row_key (chat_history db) @ (sint pid, ''user'', prompt) # ?tail)"
    by (rule arg_cong)
  then have len: "length (chat_history db) < length (chat_history (store ?res))"
    by simp
  have "map row_key (chat_history (store ?res)) ! length (map row_key (chat_history db))
      = (sint pid, ''user'', prompt)"
    by (simp only: keys nth_append_length)
  with len have "row_key (chat_history (store ?res) ! length (chat_history db))
      = (sint pid, ''user'', prompt)"
    by simp
  with len show ?thesis by blast
qed

lemma append_if_int:
  "append_if int_truthy render v
     = (case v of Some n \<Rightarrow> if n \<noteq> 0 then [render n] else [] | None \<Rightarrow> [])"
  by (cases v) (simp_all add: append_if_def int_truthy_def)

lemma append_if_str:
  "append_if str_truthy render v
     = (case v of Some x \<Rightarrow> if x \<noteq> [] then [render x] else [] | None \<Rightarrow> [])"
  by (cases v) (simp_all add: append_if_def str_truthy_def)

lemma append_if_float:
  "append_if float_truthy render v
     = (case v of Some x \<Rightarrow> if float_truthy x then [render x] else [] | None \<Rightarrow> [])"
  by (simp add: append_if_def)

lemma context_parts_values:
  "context_parts fr (goal, experience, age, sex, height, weight, activity, diet, equip, pnotes)
     = [''Goal: '' @ goal, ''Experience: '' @ experience]
       @ (case age of Some n \<Rightarrow> if n \<noteq> 0 then [''Age: '' @ str_int n] else [] | None \<Rightarrow> [])
       @ (case sex of Some v \<Rightarrow> if v \<noteq> [] then [''Sex: '' @ v] else [] | None \<Rightarrow> [])
       @ (case height of
            Some v \<Rightarrow> if float_truthy v then [''Height: '' @ fr v @ '' cm''] else []
          | None \<Rightarrow> [])
       @ (case weight of
            Some v \<Rightarrow> if float_truthy v then [''Weight: '' @ fr v @ '' kg''] else []
          | None \<Rightarrow> [])
       @ (case activity of
            Some v \<Rightarrow> if v \<noteq> [] then [''Activity Level: '' @ v] else [] | None \<Rightarrow> [])
       @ (case diet of
            Some v \<Rightarrow> if v \<noteq> [] then [''Dietary Notes: '' @ v] else [] | None \<Rightarrow> [])
       @ (case equip of
            Some v \<Rightarrow> if v \<noteq> [] then [''Equipment: '' @ v] else [] | None \<Rightarrow> [])
       @ (case pnotes of
            Some v \<Rightarrow> if v \<noteq> [] then [''General Notes: '' @ v] else [] | None \<Rightarrow> [])"
  by (simp only: context_parts_def prod.case append_if_int append_if_str append_if_float)

lemma chat_request_messages:
  "messages (chat_request env session details prompt)
     = [\<lparr>role = ''system'', content = SYSTEM_PROMPT env\<rparr>] @ session
       @ [\<lparr>role = ''user'',
           content = ''(My Profile: '' @ join ''; '' (context_parts (float_repr env) details)
                     @ '')'' @ [CHR 0x5C, CHR ''n'', CHR 0x5C, CHR ''n''] @ prompt\<rparr>]"
  by (simp add: chat_request_def contextual_prompt_def context_string_def map_idI)

lemma sent_content_longer:
  "''(My Profile: '' @ ctx @ '')'' @ [CHR 0x5C, CHR ''n'', CHR 0x5C, CHR ''n''] @ prompt
     \<noteq> prompt"
  using contextual_prompt_longer [of ctx prompt] by (simp add: contextual_prompt_def)

text \<open>
  C4. The parts of the context are the goal and the experience, always and first,
  then in this order one part for each optional attribute that is truthy, hence
  set, made of its label and its value, and no part for the others. The context
  string is the parts joined by \<open>; \<close>: no part is empty and the string has one
  separator fewer than parts. For goal \<open>Lose fat\<close>, experience \<open>Beginner\<close> and nothing
  else set it is \<open>Goal: Lose fat; Experience: Beginner\<close>. The handler sends one
  request: the system prompt, the transcript so far, and a user message whose
  content is \<open>(My Profile: \<close>, the context string of the profile, \<open>)\<close>, a backslash
  and \<open>n\<close> twice, then the prompt, which is not the prompt itself. The user turn it
  saves holds the prompt itself, and no user row it adds holds anything else.
\<close>

theorem context_preamble_and_user_turn:
  fixes fr goal experience age sex height weight activity diet equip pnotes
    and env pid prompt session db
  defines "details \<equiv> (goal, experience, age, sex, height, weight, activity, diet, equip, pnotes)"
    and "parts \<equiv> context_parts fr (goal, experience, age, sex, height, weight, activity,
                                       diet, equip, pnotes)"
    and "res \<equiv> chat_turn env pid prompt session db"
    and "sent \<equiv> ''(My Profile: ''
                  @ join ''; '' (context_parts (float_repr env) (get_profile_details pid db))
                  @ '')'' @ [CHR 0x5C, CHR ''n'', CHR 0x5C, CHR ''n''] @ prompt"
  shows "context_string fr details = join ''; '' parts
       \<and> parts
           = [''Goal: '' @ goal, ''Experience: '' @ experience]
             @ (case age of
                  Some n \<Rightarrow> if n \<noteq> 0 then [''Age: '' @ str_int n] else [] | None \<Rightarrow> [])
             @ (case sex of
                  Some v \<Rightarrow> if v \<noteq> [] then [''Sex: '' @ v] else [] | None \<Rightarrow> [])
             @ (case height of
                  Some v \<Rightarrow> if float_truthy v then [''Height: '' @ fr v @ '' cm''] else []
                | None \<Rightarrow> [])
             @ (case weight of
                  Some v \<Rightarrow> if float_truthy v then [''Weight: '' @ fr v @ '' kg''] else []
                | None \<Rightarrow> [])
             @ (case activity of
                  Some v \<Rightarrow> if v \<noteq> [] then [''Activity Level: '' @ v] else [] | None \<Rightarrow> [])
             @ (case diet of
                  Some v \<Rightarrow> if v \<noteq> [] then [''Dietary Notes: '' @ v] else [] | None \<Rightarrow> [])
             @ (case equip of
                  Some v \<Rightarrow> if v \<noteq> [] then [''Equipment: '' @ v] else [] | None \<Rightarrow> [])
             @ (case pnotes of
                  Some v \<Rightarrow> if v \<noteq> [] then [''General Notes: '' @ v] else [] | None \<Rightarrow> [])
       \<and> take 2 parts = [''Goal: '' @ goal, ''Experience: '' @ experience]
       \<and> [] \<notin> set parts
       \<and> length (context_string fr details)
           = sum_list (map length parts) + 2 * (length parts - 1)
       \<and> ((\<exists>x \<in> set parts. startswith x ''Age: '') \<longleftrightarrow> (\<exists>n. age = Some n \<and> n \<noteq> 0))
       \<and> ((\<exists>x \<in> set parts. startswith x ''Sex: '') \<longleftrightarrow> (\<exists>s. sex = Some s \<and> s \<noteq> []))
       \<and> ((\<exists>x \<in> set parts. startswith x ''Height: '')
             \<longleftrightarrow> (\<exists>v. height = Some v \<and> float_truthy v))
       \<and> ((\<exists>x \<in> set parts. startswith x ''Weight: '')
             \<longleftrightarrow> (\<exists>v. weight = Some v \<and> float_truthy v))
       \<and> ((\<exists>x \<in> set parts. startswith x ''Activity Level: '')
             \<longleftrightarrow> (\<exists>s. activity = Some s \<and> s \<noteq> []))
       \<and> ((\<exists>x \<in> set parts. startswith x ''Dietary Notes: '')
             \<longleftrightarrow> (\<exists>s. diet = Some s \<and> s \<noteq> []))
       \<and> ((\<exists>x \<in> set parts. startswith x ''Equipment: '')
             \<longleftrightarrow> (\<exists>s. equip = Some s \<and> s \<noteq> []))
       \<and> ((\<exists>x \<in> set parts. startswith x ''General Notes: '')
             \<longleftrightarrow> (\<exists>s. pnotes = Some s \<and> s \<noteq> []))
       \<and> context_string fr
            (''Lose fat'', ''Beginner'', None, None, None, None, None, None, None, None)
           = ''Goal: Lose fat; Experience: Beginner''
       \<and> length (requests res) = 1
       \<and> messages (hd (requests res))
           = [\<lparr>role = ''system'', content = SYSTEM_PROMPT env\<rparr>] @ session
             @ [\<lparr>role = ''user'', content = sent\<rparr>]
       \<and> sent \<noteq> prompt
       \<and> (user_fault env = None \<longrightarrow>
            length (chat_history db) < length (chat_history (store res))
            \<and> row_key (chat_history (store res) ! length (chat_history db))
                = (sint pid, ''user'', prompt))
       \<and> (\<forall>r \<in> set (drop (length (chat_history db)) (chat_history (store res))).
             ch_role r = ''user'' \<longrightarrow> ch_content r = prompt)"
proof -
  have j: "context_string fr details = join ''; '' parts"
    by (simp add: context_string_def details_def parts_def)
  have len: "length (context_string fr details)
           = sum_list (map length parts) + 2 * (length parts - 1)"
    by (simp add: j length_join)
  note vals = context_parts_values [of fr goal experience age sex height weight activity diet
      equip pnotes, folded parts_def]
  note labels = context_parts_labels [of fr goal experience age sex height weight activity diet
      equip pnotes, folded parts_def]
  note hd = context_parts_head [of fr goal experience age sex height weight activity diet
      equip pnotes, folded parts_def]
  note ne = context_parts_nonempty [of fr goal experience age sex height weight activity diet
      equip pnotes, folded parts_def]
  note saved = chat_turn_user_row_saved [of env db pid prompt session, folded res_def]
  have users: "\<forall>r \<in> set (drop (length (chat_history db)) (chat_history (store res))).
             ch_role r = ''user'' \<longrightarrow> ch_content r = prompt"
    unfolding res_def using chat_turn_user_rows by blast
  have reqs: "requests res = [chat_request env session (get_profile_details pid db) prompt]"
    unfolding res_def by (rule chat_turn_requests)
  then have one: "length (requests res) = 1"
    by simp
  have msgs: "messages (hd (requests res))
           = [\<lparr>role = ''system'', content = SYSTEM_PROMPT env\<rparr>] @ session
             @ [\<lparr>role = ''user'', content = sent\<rparr>]"
    unfolding sent_def by (simp only: reqs list.sel chat_request_messages)
  have diff: "sent \<noteq> prompt"
    unfolding sent_def by (rule sent_content_longer)
  show ?thesis
    using j vals hd ne len labels context_string_example [of fr] one msgs diff saved users
    by blast
qed

lemma sam_turn_request:
  "messages (hd (requests (chat_turn coach_env 2 ''how do I squat?''
                            [\<lparr>role = ''assistant'', content = ''Welcome!''\<rparr>] sam_db)))
     = [\<lparr>role = ''system'', content = ''You are an advanced AI Fitness Coach.''\<rparr>,
        \<lparr>role = ''assistant'', content = ''Welcome!''\<rparr>,
        \<lparr>role = ''user'',
         content = ''(My Profile: Goal: Lose fat; Experience: Beginner; Age: 30; ''
                   @ ''Sex: Female; Height: 170.0 cm; Weight: 65.0 kg; ''
                   @ ''Activity Level: Sedentary (little to no exercise); ''
                   @ ''Equipment: dumbbells)''
                   @ [CHR 0x5C, CHR ''n'', CHR 0x5C, CHR ''n''] @ ''how do I squat?''\<rparr>]"
  by code_simp

theorem context_preamble_and_user_turn_witness:
  "row_key (chat_history (store (chat_turn coach_env 2 ''how do I squat?''
                                   [\<lparr>role = ''assistant'', content = ''Welcome!''\<rparr>] sam_db))
              ! length (chat_history sam_db))
     = (2, ''user'', ''how do I squat?'')
   \<and> ''(My Profile: ''
         @ join ''; '' (context_parts (float_repr coach_env) (get_profile_details 2 sam_db))
         @ '')'' @ [CHR 0x5C, CHR ''n'', CHR 0x5C, CHR ''n''] @ ''how do I squat?''
       = ''(My Profile: Goal: Lose fat; Experience: Beginner; Age: 30; ''
         @ ''Sex: Female; Height: 170.0 cm; Weight: 65.0 kg; ''
         @ ''Activity Level: Sedentary (little to no exercise); ''
         @ ''Equipment: dumbbells)''
         @ [CHR 0x5C, CHR ''n'', CHR 0x5C, CHR ''n''] @ ''how do I squat?''
   \<and> context_string whole_repr
        (''Lose fat'', ''Beginner'', None, None, None, None, None, None, None, None)
       = ''Goal: Lose fat; Experience: Beginner''"
proof -
  have f: "user_fault coach_env = None"
    by (simp add: coach_env_def)
  note t = context_preamble_and_user_turn [where env = coach_env and pid = 2
      and fr = whole_repr and prompt = "''how do I squat?''"
      and session = "[\<lparr>role = ''assistant'', content = ''Welcome!''\<rparr>]" and db = sam_db]
  from t f have row: "row_key (chat_history (store (chat_turn coach_env 2 ''how do I squat?''
                                   [\<lparr>role = ''assistant'', content = ''Welcome!''\<rparr>] sam_db))
              ! length (chat_history sam_db))
     = (sint (2 :: sqlite_int), ''user'', ''how do I squat?'')"
    by blast
  from t have ex: "context_string whole_repr
        (''Lose fat'', ''Beginner'', None, None, None, None, None, None, None, None)
       = ''Goal: Lose fat; Experience: Beginner''"
    by blast
  from t have "messages (hd (requests (chat_turn coach_env 2 ''how do I squat?''
                            [\<lparr>role = ''assistant'', content = ''Welcome!''\<rparr>] sam_db)))
       = [\<lparr>role = ''system'', content = SYSTEM_PROMPT coach_env\<rparr>]
         @ [\<lparr>role = ''assistant'', content = ''Welcome!''\<rparr>]
         @ [\<lparr>role = ''user'',
             content = ''(My Profile: ''
               @ join ''; '' (context_parts (float_repr coach_env)
                                (get_profile_details 2 sam_db))
               @ '')'' @ [CHR 0x5C, CHR ''n'', CHR 0x5C, CHR ''n''] @ ''how do I squat?''\<rparr>]"
    by blast
  with sam_turn_request have sent: "''(My Profile: ''
         @ join ''; '' (context_parts (float_repr coach_env) (get_profile_details 2 sam_db))
         @ '')'' @ [CHR 0x5C, CHR ''n'', CHR 0x5C, CHR ''n''] @ ''how do I squat?''
       = ''(My Profile: Goal: Lose fat; Experience: Beginner; Age: 30; ''
         @ ''Sex: Female; Height: 170.0 cm; Weight: 65.0 kg; ''
         @ ''Activity Level: Sedentary (little to no exercise); ''
         @ ''Equipment: dumbbells)''
         @ [CHR 0x5C, CHR ''n'', CHR 0x5C, CHR ''n''] @ ''how do I squat?''"
    by simp
  from row sent ex show ?thesis by simp
qed

end
